theory Spec2Isabelle
  imports Complex_Main
begin

section \<open>Data model of the game server\<close>

text \<open>
  The embedding follows the first revision in \<^verbatim>\<open>src/server.js\<close> (PostgreSQL ledger,
  \<^verbatim>\<open>openChallenges\<close> array and \<^verbatim>\<open>activeRooms\<close> object in memory); the settlement of the
  Redis revision, \<^verbatim>\<open>src/unnamed/part_000\<close>, has a section of its own.

  The handlers are given in two layers.
  \<^item> In the section \<open>Socket handlers\<close> every ledger statement succeeds and a handler runs
    from its first statement to its last.  This layer carries the amounts, the tests and
    the identifiers the handlers compute.
  \<^item> From the section on PostgreSQL's \<^verbatim>\<open>INTEGER\<close> columns on, the handlers (suffix \<open>_pg\<close>)
    keep the errors the ledger raises, the \<^verbatim>\<open>catch\<close> blocks that receive them and the
    points at which a handler awaits.  The two layers agree on the sample run, and on
    \<^verbatim>\<open>create_challenge\<close> whenever its statements stay within the columns.

  Conventions:
  \<^item> JavaScript numbers that hold money, ratings and account identifiers are integers;
    the floating-point expressions of the source (\<^verbatim>\<open>totalPot * 0.10\<close>, \<^verbatim>\<open>Math.pow\<close>) are
    evaluated over the reals.
  \<^item> A statement whose \<^verbatim>\<open>WHERE id = ...\<close> matches no row changes nothing.
  \<^item> \<^verbatim>\<open>Date.now()\<close> and the token drawn from \<^verbatim>\<open>Math.random()\<close> are arguments
    of the handler that reads them.
  \<^item> Everything a handler emits is appended to \<open>emitted\<close>.
\<close>

type_synonym socket_id = string

record user_row =
  real_balance :: int
  demo_balance :: int
  elo :: int

record tx_row =
  tx_user_id :: int
  tx_type :: string
  tx_amount :: int
  tx_status :: string

record challenge =
  c_roomId :: string
  c_hostId :: socket_id
  c_userId :: int
  c_hostName :: string
  c_stake :: int
  c_mode :: string
  c_isPrivate :: bool
  c_elo :: int

record player =
  p_id :: socket_id
  p_userId :: int
  p_elo :: int

record room =
  p1 :: player
  p2 :: player
  r_stake :: int
  r_mode :: string
  processed :: bool

record elos =
  newWinnerElo :: int
  newLoserElo :: int

datatype event =
    Lobby_update "challenge list"
  | Error_message socket_id string
  | Game_created socket_id string bool
  | Game_start string socket_id socket_id string string int
  | Challenge_cancelled socket_id
  | Match_draw string int
  | Match_result string int int string

record server =
  openChallenges :: "challenge list"
  activeRooms :: "string \<rightharpoonup> room"
  users :: "int \<rightharpoonup> user_row"
  admin_wallet :: int
  transactions :: "tx_row list"
  socket_roomId :: "socket_id \<rightharpoonup> string"
  socket_userId :: "socket_id \<rightharpoonup> int"
  emitted :: "event list"

record create_data =
  cd_userId :: int
  cd_username :: string
  cd_stake :: int
  cd_mode :: string
  cd_isPrivate :: bool
  cd_elo :: int

record join_data =
  jd_userId :: int
  jd_username :: string
  jd_roomId :: string
  jd_elo :: int

datatype js_error = TypeError

section \<open>Arithmetic of the source\<close>

definition Math_floor :: "real \<Rightarrow> int" where
  "Math_floor x = \<lfloor>x\<rfloor>"

text \<open>\<^verbatim>\<open>Math.round\<close> rounds to the nearest integer, a half towards plus infinity.\<close>

definition Math_round :: "real \<Rightarrow> int" where
  "Math_round x = \<lfloor>x + 1 / 2\<rfloor>"

definition updateElo :: "int \<Rightarrow> int \<Rightarrow> elos" where
  "updateElo winnerElo loserElo =
     (let k = (32 :: real);
          expectedWin = 1 / (1 + 10 powr (real_of_int (loserElo - winnerElo) / 400));
          expectedLoss = 1 / (1 + 10 powr (real_of_int (winnerElo - loserElo) / 400))
      in \<lparr>newWinnerElo = Math_round (real_of_int winnerElo + k * (1 - expectedWin)),
          newLoserElo = Math_round (real_of_int loserElo + k * (0 - expectedLoss))\<rparr>)"

text \<open>The rating calculator as the specification words it.\<close>

definition expected :: "real \<Rightarrow> real \<Rightarrow> real" where
  "expected a b = 1 / (1 + 10 powr ((b - a) / 400))"

definition spec_elo :: "int \<Rightarrow> int \<Rightarrow> int \<times> int" where
  "spec_elo winnerRating loserRating =
     (round (real_of_int winnerRating + 32 * (1 - expected (real_of_int winnerRating) (real_of_int loserRating))),
      round (real_of_int loserRating + 32 * (0 - expected (real_of_int loserRating) (real_of_int winnerRating))))"

text \<open>The amounts \<^verbatim>\<open>handleGameOver\<close> computes from \<^verbatim>\<open>totalPot = room.stake * 2\<close>.\<close>

definition platformFee :: "int \<Rightarrow> int" where
  "platformFee totalPot = Math_floor (real_of_int totalPot * 0.10)"

definition refund :: "int \<Rightarrow> int" where
  "refund totalPot = Math_floor (real_of_int (totalPot - platformFee totalPot) / 2)"

definition winnerTake :: "int \<Rightarrow> int" where
  "winnerTake totalPot = totalPot - platformFee totalPot"

section \<open>Helpers for arrays, identifiers and the ledger\<close>

text \<open>\<^verbatim>\<open>Array.prototype.findIndex\<close>: the first index whose element passes the test;
  the source's \<^verbatim>\<open>-1\<close> is \<open>None\<close>.\<close>

fun findIndex :: "('a \<Rightarrow> bool) \<Rightarrow> 'a list \<Rightarrow> nat option" where
  "findIndex P [] = None"
| "findIndex P (x # xs) = (if P x then Some 0 else map_option Suc (findIndex P xs))"

text \<open>\<^verbatim>\<open>xs.splice(i, 1)\<close>: the array without its element at index \<open>i\<close>.\<close>

definition splice1 :: "nat \<Rightarrow> 'a list \<Rightarrow> 'a list" where
  "splice1 i xs = take i xs @ drop (Suc i) xs"

text \<open>The decimal numeral that string concatenation makes of the number \<^verbatim>\<open>Date.now()\<close>.\<close>

definition digit :: "nat \<Rightarrow> char" where
  "digit d = ''0123456789'' ! d"

function decimal :: "nat \<Rightarrow> string" where
  "decimal n = (if n < 10 then [digit n] else decimal (n div 10) @ [digit (n mod 10)])"
  by pat_completeness auto
termination
  by (relation "measure id") auto

declare decimal.simps [simp del]

text \<open>\<^verbatim>\<open>isPrivate ? Math.random().toString(36).substr(2, 5).toUpperCase() : 'pub_' + Date.now()\<close>,
  with the random token and the clock reading passed in.\<close>

definition new_roomId :: "bool \<Rightarrow> string \<Rightarrow> nat \<Rightarrow> string" where
  "new_roomId isPrivate token now = (if isPrivate then token else ''pub_'' @ decimal now)"

definition balCol :: "string \<Rightarrow> string" where
  "balCol mode = (if mode = ''real'' then ''real_balance'' else ''demo_balance'')"

text \<open>\<^verbatim>\<open>SELECT ${balCol} as bal\<close> on one row.\<close>

definition bal :: "string \<Rightarrow> user_row \<Rightarrow> int" where
  "bal col u = (if col = ''real_balance'' then real_balance u else demo_balance u)"

text \<open>\<^verbatim>\<open>SET ${balCol} = ${balCol} + amount\<close> on one row.\<close>

definition add_bal :: "string \<Rightarrow> int \<Rightarrow> user_row \<Rightarrow> user_row" where
  "add_bal col amount u =
     (if col = ''real_balance'' then u\<lparr>real_balance := real_balance u + amount\<rparr>
      else u\<lparr>demo_balance := demo_balance u + amount\<rparr>)"

text \<open>\<^verbatim>\<open>UPDATE users SET ... WHERE id = uid\<close>: the row is rewritten when it exists.\<close>

definition update_user :: "int \<Rightarrow> (user_row \<Rightarrow> user_row) \<Rightarrow> server \<Rightarrow> server" where
  "update_user uid f s = s\<lparr>users := (users s)(uid := map_option f (users s uid))\<rparr>"

text \<open>\<^verbatim>\<open>UPDATE users SET ... WHERE id IN (a, b)\<close>: every matching row is rewritten once.\<close>

definition update_users_in :: "int \<Rightarrow> int \<Rightarrow> (user_row \<Rightarrow> user_row) \<Rightarrow> server \<Rightarrow> server" where
  "update_users_in a b f s =
     s\<lparr>users := (\<lambda>uid. if uid = a \<or> uid = b then map_option f (users s uid) else users s uid)\<rparr>"

definition credit_admin_wallet :: "int \<Rightarrow> server \<Rightarrow> server" where
  "credit_admin_wallet amount s = s\<lparr>admin_wallet := admin_wallet s + amount\<rparr>"

definition insert_transaction :: "int \<Rightarrow> string \<Rightarrow> int \<Rightarrow> string \<Rightarrow> server \<Rightarrow> server" where
  "insert_transaction uid ty amount st s =
     s\<lparr>transactions := transactions s @
        [\<lparr>tx_user_id = uid, tx_type = ty, tx_amount = amount, tx_status = st\<rparr>]\<rparr>"

definition emit :: "event \<Rightarrow> server \<Rightarrow> server" where
  "emit e s = s\<lparr>emitted := emitted s @ [e]\<rparr>"

definition public_challenges :: "challenge list \<Rightarrow> challenge list" where
  "public_challenges cs = filter (\<lambda>c. \<not> c_isPrivate c) cs"

section \<open>Socket handlers\<close>

definition create_challenge :: "socket_id \<Rightarrow> create_data \<Rightarrow> nat \<Rightarrow> string \<Rightarrow> server \<Rightarrow> server" where
  "create_challenge sid d now token s =
     (let col = balCol (cd_mode d) in
      case users s (cd_userId d) of
        None \<Rightarrow> emit (Error_message sid ''Salio Halitoshi!'') s
      | Some u \<Rightarrow>
          if bal col u < cd_stake d then emit (Error_message sid ''Salio Halitoshi!'') s
          else
            let roomId = new_roomId (cd_isPrivate d) token now;
                s1 = update_user (cd_userId d) (add_bal col (- cd_stake d)) s;
                s2 = s1\<lparr>socket_roomId := (socket_roomId s1)(sid \<mapsto> roomId),
                        socket_userId := (socket_userId s1)(sid \<mapsto> cd_userId d)\<rparr>;
                c = \<lparr>c_roomId = roomId, c_hostId = sid, c_userId = cd_userId d,
                     c_hostName = cd_username d, c_stake = cd_stake d, c_mode = cd_mode d,
                     c_isPrivate = cd_isPrivate d, c_elo = cd_elo d\<rparr>;
                s3 = s2\<lparr>openChallenges := openChallenges s2 @ [c]\<rparr>;
                s4 = emit (Game_created sid roomId (cd_isPrivate d)) s3;
                s5 = (if \<not> cd_isPrivate d
                      then emit (Lobby_update (public_challenges (openChallenges s4))) s4
                      else s4)
            in if cd_mode d = ''real''
               then insert_transaction (cd_userId d) ''ENTRY_FEE'' (cd_stake d) ''PENDING'' s5
               else s5)"

definition join_challenge :: "socket_id \<Rightarrow> join_data \<Rightarrow> server \<Rightarrow> server" where
  "join_challenge sid d s =
     (case findIndex (\<lambda>c. c_roomId c = jd_roomId d) (openChallenges s) of
        None \<Rightarrow> emit (Error_message sid ''Mechi haipatikani.'') s
      | Some challengeIndex \<Rightarrow>
          let c = openChallenges s ! challengeIndex in
          if c_userId c = jd_userId d
          then emit (Error_message sid ''Huwezi kucheza dhidi yako!'') s
          else
            let col = balCol (c_mode c) in
            (case users s (jd_userId d) of
              None \<Rightarrow> emit (Error_message sid ''Salio Halitoshi!'') s
            | Some u \<Rightarrow>
                if bal col u < c_stake c then emit (Error_message sid ''Salio Halitoshi!'') s
                else
                  let s1 = s\<lparr>openChallenges := splice1 challengeIndex (openChallenges s)\<rparr>;
                      s2 = emit (Lobby_update (public_challenges (openChallenges s1))) s1;
                      s3 = update_user (jd_userId d) (add_bal col (- c_stake c)) s2;
                      s4 = s3\<lparr>socket_roomId := (socket_roomId s3)(sid \<mapsto> jd_roomId d),
                              socket_userId := (socket_userId s3)(sid \<mapsto> jd_userId d)\<rparr>;
                      r = \<lparr>p1 = \<lparr>p_id = c_hostId c, p_userId = c_userId c, p_elo = c_elo c\<rparr>,
                           p2 = \<lparr>p_id = sid, p_userId = jd_userId d, p_elo = jd_elo d\<rparr>,
                           r_stake = c_stake c, r_mode = c_mode c, processed = False\<rparr>;
                      s5 = s4\<lparr>activeRooms := (activeRooms s4)(jd_roomId d \<mapsto> r)\<rparr>;
                      s6 = (if c_mode c = ''real''
                            then insert_transaction (jd_userId d) ''ENTRY_FEE'' (c_stake c) ''PENDING'' s5
                            else s5)
                  in emit (Game_start (jd_roomId d) (c_hostId c) sid (c_hostName c)
                             (jd_username d) (c_stake c)) s6))"

text \<open>The \<^verbatim>\<open>try\<close> block of \<^verbatim>\<open>handleGameOver\<close>: the ledger queries and the
  \<^verbatim>\<open>match_result\<close> event of one settlement.\<close>

definition settle :: "string \<Rightarrow> room \<Rightarrow> socket_id option \<Rightarrow> string \<Rightarrow> server \<Rightarrow> server" where
  "settle roomId r winnerSocketId reason s =
     (let isDraw = (reason = ''draw'');
          col = balCol (r_mode r);
          totalPot = r_stake r * 2
      in if isDraw then
           let s1 = update_users_in (p_userId (p1 r)) (p_userId (p2 r))
                      (add_bal col (refund totalPot)) s;
               s2 = (if r_mode r = ''real'' then credit_admin_wallet (platformFee totalPot) s1
                     else s1)
           in emit (Match_draw roomId (refund totalPot)) s2
         else
           let winner = (if winnerSocketId = Some (p_id (p1 r)) then p1 r else p2 r);
               loser = (if winnerSocketId = Some (p_id (p1 r)) then p2 r else p1 r);
               newElos = updateElo (p_elo winner) (p_elo loser);
               s1 = update_user (p_userId winner)
                      (\<lambda>u. (add_bal col (winnerTake totalPot) u)\<lparr>elo := newWinnerElo newElos\<rparr>) s;
               s2 = update_user (p_userId loser) (\<lambda>u. u\<lparr>elo := newLoserElo newElos\<rparr>) s1;
               s3 = (if r_mode r = ''real''
                     then insert_transaction (p_userId winner) ''PRIZE_PAYOUT''
                            (winnerTake totalPot) ''SUCCESS''
                            (credit_admin_wallet (platformFee totalPot) s2)
                     else s2)
           in emit (Match_result roomId (p_userId winner) (winnerTake totalPot) reason) s3)"

text \<open>\<^verbatim>\<open>handleGameOver\<close>: a room that is absent or already marked is left alone;
  otherwise the room is marked, settled and deleted.  \<open>None\<close> as the winner's socket is
  the source's \<^verbatim>\<open>null\<close>.\<close>

definition handleGameOver :: "string \<Rightarrow> socket_id option \<Rightarrow> string \<Rightarrow> server \<Rightarrow> server" where
  "handleGameOver roomId winnerSocketId reason s =
     (case activeRooms s roomId of
        None \<Rightarrow> s
      | Some r \<Rightarrow>
          if processed r then s
          else
            let r' = r\<lparr>processed := True\<rparr>;
                s1 = s\<lparr>activeRooms := (activeRooms s)(roomId \<mapsto> r')\<rparr>;
                s2 = settle roomId r' winnerSocketId reason s1
            in s2\<lparr>activeRooms := (activeRooms s2)(roomId := None)\<rparr>)"

text \<open>A socket that never created or joined a game has no \<^verbatim>\<open>roomId\<close>;
  \<^verbatim>\<open>activeRooms[undefined]\<close> is then \<^verbatim>\<open>undefined\<close> and \<^verbatim>\<open>handleGameOver\<close> returns at
  its first test.\<close>

definition game_over :: "socket_id \<Rightarrow> string \<Rightarrow> server \<Rightarrow> server" where
  "game_over sid winner s =
     (case socket_roomId s sid of
        None \<Rightarrow> s
      | Some roomId \<Rightarrow>
          handleGameOver roomId (if winner = ''me'' then Some sid else None) ''regular'' s)"

section \<open>PostgreSQL's INTEGER columns\<close>

text \<open>
  The handlers above run against a ledger that accepts every statement.  The tables of
  \<^verbatim>\<open>src/server.js\<close> (lines 48 to 73; the Redis revision declares the same) give
  \<^verbatim>\<open>users.id\<close> the type \<^verbatim>\<open>SERIAL\<close>, an \<^verbatim>\<open>INTEGER\<close> fed by a sequence, and declare
  \<^verbatim>\<open>real_balance\<close>, \<^verbatim>\<open>demo_balance\<close>, \<^verbatim>\<open>elo\<close>, \<^verbatim>\<open>admin_wallet.balance\<close>,
  \<^verbatim>\<open>transactions.user_id\<close> and \<^verbatim>\<open>transactions.amount\<close> as \<^verbatim>\<open>INTEGER\<close>.  PostgreSQL raises
  an error when a parameter compared with, added to or stored in such a column lies
  outside the 32-bit range, and when the value a statement would store does; a statement
  that raises changes nothing.  The rest of the model keeps these errors, the \<^verbatim>\<open>catch\<close>
  blocks that receive them and, where a claim depends on it, the points at which a
  handler awaits.
\<close>

definition int4 :: "int \<Rightarrow> bool" where
  "int4 n = (- 2147483648 \<le> n \<and> n \<le> 2147483647)"

datatype pg_error = Integer_out_of_range

text \<open>\<^verbatim>\<open>SELECT ${balCol} as bal FROM users WHERE id = $1\<close>; \<open>None\<close> is \<^verbatim>\<open>rowCount === 0\<close>.\<close>

definition select_bal :: "string \<Rightarrow> int \<Rightarrow> server \<Rightarrow> pg_error + int option" where
  "select_bal col uid s =
     (if int4 uid then Inr (map_option (bal col) (users s uid)) else Inl Integer_out_of_range)"

text \<open>
  The data-changing statements of the source, with their parameters in the source's
  order:
  \<^item> \<open>Debit col $1 $2\<close>: \<^verbatim>\<open>UPDATE users SET col = col - $1 WHERE id = $2\<close>
  \<^item> \<open>Credit col $1 $2\<close>: \<^verbatim>\<open>UPDATE users SET col = col + $1 WHERE id = $2\<close>
  \<^item> \<open>Credit_both col $1 $2 $3\<close>: \<^verbatim>\<open>UPDATE users SET col = col + $1 WHERE id IN ($2, $3)\<close>
  \<^item> \<open>Credit_and_rate col $1 $2 $3\<close>:
    \<^verbatim>\<open>UPDATE users SET col = col + $1, elo = $2 WHERE id = $3\<close>
  \<^item> \<open>Rate $1 $2\<close>: \<^verbatim>\<open>UPDATE users SET elo = $1 WHERE id = $2\<close>
  \<^item> \<open>Credit_wallet $1\<close>: \<^verbatim>\<open>UPDATE admin_wallet SET balance = balance + $1 WHERE id = 1\<close>
  \<^item> \<open>Insert_tx $1 type $2 status\<close>:
    \<^verbatim>\<open>INSERT INTO transactions (user_id, type, amount, status) VALUES ($1, type, $2, status)\<close>
\<close>

datatype statement =
    Debit string int int
  | Credit string int int
  | Credit_both string int int int
  | Credit_and_rate string int int int
  | Rate int int
  | Credit_wallet int
  | Insert_tx int string int string

text \<open>The value a statement would store in a row, when the row exists, fits the column.\<close>

definition stays :: "(user_row \<Rightarrow> int) \<Rightarrow> user_row option \<Rightarrow> bool" where
  "stays f row = (case row of None \<Rightarrow> True | Some u \<Rightarrow> int4 (f u))"

fun execute :: "statement \<Rightarrow> server \<Rightarrow> pg_error + server" where
  "execute (Debit col amount uid) s =
     (if int4 amount \<and> int4 uid \<and> stays (\<lambda>u. bal col u - amount) (users s uid)
      then Inr (update_user uid (add_bal col (- amount)) s)
      else Inl Integer_out_of_range)"
| "execute (Credit col amount uid) s =
     (if int4 amount \<and> int4 uid \<and> stays (\<lambda>u. bal col u + amount) (users s uid)
      then Inr (update_user uid (add_bal col amount) s)
      else Inl Integer_out_of_range)"
| "execute (Credit_both col amount a b) s =
     (if int4 amount \<and> int4 a \<and> int4 b
         \<and> stays (\<lambda>u. bal col u + amount) (users s a)
         \<and> stays (\<lambda>u. bal col u + amount) (users s b)
      then Inr (update_users_in a b (add_bal col amount) s)
      else Inl Integer_out_of_range)"
| "execute (Credit_and_rate col amount e uid) s =
     (if int4 amount \<and> int4 e \<and> int4 uid \<and> stays (\<lambda>u. bal col u + amount) (users s uid)
      then Inr (update_user uid (\<lambda>u. (add_bal col amount u)\<lparr>elo := e\<rparr>) s)
      else Inl Integer_out_of_range)"
| "execute (Rate e uid) s =
     (if int4 e \<and> int4 uid
      then Inr (update_user uid (\<lambda>u. u\<lparr>elo := e\<rparr>) s)
      else Inl Integer_out_of_range)"
| "execute (Credit_wallet amount) s =
     (if int4 amount \<and> int4 (admin_wallet s + amount)
      then Inr (credit_admin_wallet amount s)
      else Inl Integer_out_of_range)"
| "execute (Insert_tx uid ty amount st) s =
     (if int4 uid \<and> int4 amount
      then Inr (insert_transaction uid ty amount st s)
      else Inl Integer_out_of_range)"

text \<open>\<^verbatim>\<open>try { await q } catch (e) { }\<close>: a statement whose error is dropped.\<close>

definition execute_or_skip :: "statement \<Rightarrow> server \<Rightarrow> server" where
  "execute_or_skip q s = (case execute q s of Inl err \<Rightarrow> s | Inr s' \<Rightarrow> s')"

text \<open>Statements awaited one after the other inside a \<^verbatim>\<open>try\<close> block: the first that raises
  ends the run; the flag tells whether all were executed.\<close>

fun execute_all :: "statement list \<Rightarrow> server \<Rightarrow> bool \<times> server" where
  "execute_all [] s = (True, s)"
| "execute_all (q # qs) s =
     (case execute q s of Inl err \<Rightarrow> (False, s) | Inr s' \<Rightarrow> execute_all qs s')"

section \<open>The handlers with their catch blocks\<close>

text \<open>
  \<^verbatim>\<open>create_challenge\<close>, \<^verbatim>\<open>src/server.js\<close> lines 167 to 189.  An error raised by the
  \<^verbatim>\<open>SELECT\<close> or the \<^verbatim>\<open>UPDATE\<close> reaches the \<^verbatim>\<open>catch\<close> of line 188, which logs it on the
  server: nothing has been stored and nothing is emitted.
\<close>

definition create_challenge_pg ::
    "socket_id \<Rightarrow> create_data \<Rightarrow> nat \<Rightarrow> string \<Rightarrow> server \<Rightarrow> server" where
  "create_challenge_pg sid d now token s =
     (let col = balCol (cd_mode d) in
      case select_bal col (cd_userId d) s of
        Inl err \<Rightarrow> s
      | Inr None \<Rightarrow> emit (Error_message sid ''Salio Halitoshi!'') s
      | Inr (Some b) \<Rightarrow>
          if b < cd_stake d then emit (Error_message sid ''Salio Halitoshi!'') s
          else
            let roomId = new_roomId (cd_isPrivate d) token now in
            (case execute (Debit col (cd_stake d) (cd_userId d)) s of
               Inl err \<Rightarrow> s
             | Inr s1 \<Rightarrow>
                 let s2 = s1\<lparr>socket_roomId := (socket_roomId s1)(sid \<mapsto> roomId),
                            socket_userId := (socket_userId s1)(sid \<mapsto> cd_userId d)\<rparr>;
                     c = \<lparr>c_roomId = roomId, c_hostId = sid, c_userId = cd_userId d,
                          c_hostName = cd_username d, c_stake = cd_stake d,
                          c_mode = cd_mode d, c_isPrivate = cd_isPrivate d,
                          c_elo = cd_elo d\<rparr>;
                     s3 = s2\<lparr>openChallenges := openChallenges s2 @ [c]\<rparr>;
                     s4 = emit (Game_created sid roomId (cd_isPrivate d)) s3;
                     s5 = (if \<not> cd_isPrivate d
                           then emit (Lobby_update (public_challenges (openChallenges s4))) s4
                           else s4)
                 in if cd_mode d = ''real''
                    then execute_or_skip
                           (Insert_tx (cd_userId d) ''ENTRY_FEE'' (cd_stake d) ''PENDING'') s5
                    else s5))"

text \<open>
  \<^verbatim>\<open>join_challenge\<close>, lines 191 to 230.  The array is spliced before the debit is awaited,
  so a debit that raises leaves the challenge removed; an \<^verbatim>\<open>INSERT\<close> that raises skips
  \<^verbatim>\<open>game_start\<close>.
\<close>

definition join_challenge_pg :: "socket_id \<Rightarrow> join_data \<Rightarrow> server \<Rightarrow> server" where
  "join_challenge_pg sid d s =
     (case findIndex (\<lambda>c. c_roomId c = jd_roomId d) (openChallenges s) of
        None \<Rightarrow> emit (Error_message sid ''Mechi haipatikani.'') s
      | Some challengeIndex \<Rightarrow>
          let c = openChallenges s ! challengeIndex in
          if c_userId c = jd_userId d
          then emit (Error_message sid ''Huwezi kucheza dhidi yako!'') s
          else
            let col = balCol (c_mode c) in
            (case select_bal col (jd_userId d) s of
               Inl err \<Rightarrow> s
             | Inr None \<Rightarrow> emit (Error_message sid ''Salio Halitoshi!'') s
             | Inr (Some b) \<Rightarrow>
                 if b < c_stake c then emit (Error_message sid ''Salio Halitoshi!'') s
                 else
                   let s1 = s\<lparr>openChallenges := splice1 challengeIndex (openChallenges s)\<rparr>;
                       s2 = emit (Lobby_update (public_challenges (openChallenges s1))) s1
                   in (case execute (Debit col (c_stake c) (jd_userId d)) s2 of
                         Inl err \<Rightarrow> s2
                       | Inr s3 \<Rightarrow>
                           let s4 = s3\<lparr>socket_roomId := (socket_roomId s3)(sid \<mapsto> jd_roomId d),
                                      socket_userId := (socket_userId s3)(sid \<mapsto> jd_userId d)\<rparr>;
                               r = \<lparr>p1 = \<lparr>p_id = c_hostId c, p_userId = c_userId c,
                                          p_elo = c_elo c\<rparr>,
                                    p2 = \<lparr>p_id = sid, p_userId = jd_userId d, p_elo = jd_elo d\<rparr>,
                                    r_stake = c_stake c, r_mode = c_mode c, processed = False\<rparr>;
                               s5 = s4\<lparr>activeRooms := (activeRooms s4)(jd_roomId d \<mapsto> r)\<rparr>
                           in (case (if c_mode c = ''real''
                                     then execute (Insert_tx (jd_userId d) ''ENTRY_FEE''
                                                     (c_stake c) ''PENDING'') s5
                                     else Inr s5) of
                                 Inl err \<Rightarrow> s5
                               | Inr s6 \<Rightarrow>
                                   emit (Game_start (jd_roomId d) (c_hostId c) sid (c_hostName c)
                                           (jd_username d) (c_stake c)) s6))))"

text \<open>
  \<^verbatim>\<open>cancel_challenge\<close>, lines 232 to 244: the challenge is spliced out and the lobby
  told before the refund is awaited; the refund's error is dropped.
\<close>

definition cancel_challenge_pg :: "socket_id \<Rightarrow> server \<Rightarrow> server" where
  "cancel_challenge_pg sid s =
     (case findIndex (\<lambda>c. c_hostId c = sid) (openChallenges s) of
        None \<Rightarrow> s
      | Some idx \<Rightarrow>
          let c = openChallenges s ! idx;
              col = balCol (c_mode c);
              s1 = s\<lparr>openChallenges := splice1 idx (openChallenges s)\<rparr>;
              s2 = emit (Lobby_update (public_challenges (openChallenges s1))) s1;
              s3 = execute_or_skip (Credit col (c_stake c) (c_userId c)) s2
          in emit (Challenge_cancelled sid) s3)"

text \<open>
  The \<^verbatim>\<open>try\<close> block of \<^verbatim>\<open>handleGameOver\<close> (lines 258 to 283 of \<^verbatim>\<open>src/server.js\<close>, 242 to
  267 of the Redis revision \<^verbatim>\<open>src/unnamed/part_000\<close>; the two are the same text).  Every
  parameter is computed from the room and the arguments before the first statement is
  sent: \<open>settlement\<close> lists the statements in the order they are awaited, \<open>match_result\<close>
  is the event emitted after the last of them.  A statement that raises sends control to
  the \<^verbatim>\<open>catch\<close>, past the remaining statements and past the \<^verbatim>\<open>emit\<close>.
\<close>

definition settlement :: "room \<Rightarrow> socket_id option \<Rightarrow> string \<Rightarrow> statement list" where
  "settlement r winnerSocketId reason =
     (let isDraw = (reason = ''draw'');
          col = balCol (r_mode r);
          totalPot = r_stake r * 2
      in if isDraw then
           Credit_both col (refund totalPot) (p_userId (p1 r)) (p_userId (p2 r)) #
           (if r_mode r = ''real'' then [Credit_wallet (platformFee totalPot)] else [])
         else
           let winner = (if winnerSocketId = Some (p_id (p1 r)) then p1 r else p2 r);
               loser = (if winnerSocketId = Some (p_id (p1 r)) then p2 r else p1 r);
               newElos = updateElo (p_elo winner) (p_elo loser)
           in Credit_and_rate col (winnerTake totalPot) (newWinnerElo newElos) (p_userId winner) #
              Rate (newLoserElo newElos) (p_userId loser) #
              (if r_mode r = ''real''
               then [Credit_wallet (platformFee totalPot),
                     Insert_tx (p_userId winner) ''PRIZE_PAYOUT'' (winnerTake totalPot) ''SUCCESS'']
               else []))"

definition match_result :: "string \<Rightarrow> room \<Rightarrow> socket_id option \<Rightarrow> string \<Rightarrow> event" where
  "match_result roomId r winnerSocketId reason =
     (let totalPot = r_stake r * 2
      in if reason = ''draw'' then Match_draw roomId (refund totalPot)
         else Match_result roomId
                (p_userId (if winnerSocketId = Some (p_id (p1 r)) then p1 r else p2 r))
                (winnerTake totalPot) reason)"

definition try_settle :: "string \<Rightarrow> room \<Rightarrow> socket_id option \<Rightarrow> string \<Rightarrow> server \<Rightarrow> server" where
  "try_settle roomId r winnerSocketId reason s =
     (case execute_all (settlement r winnerSocketId reason) s of
        (True, s') \<Rightarrow> emit (match_result roomId r winnerSocketId reason) s'
      | (False, s') \<Rightarrow> s')"

text \<open>
  \<^verbatim>\<open>handleGameOver\<close> of \<^verbatim>\<open>src/server.js\<close>, lines 249 to 285, run to its end.  The test and
  the assignment of \<^verbatim>\<open>room.processed\<close> come before the first \<^verbatim>\<open>await\<close>.
\<close>

definition handleGameOver_pg :: "string \<Rightarrow> socket_id option \<Rightarrow> string \<Rightarrow> server \<Rightarrow> server" where
  "handleGameOver_pg roomId winnerSocketId reason s =
     (case activeRooms s roomId of
        None \<Rightarrow> s
      | Some r \<Rightarrow>
          if processed r then s
          else
            let r' = r\<lparr>processed := True\<rparr>;
                s1 = s\<lparr>activeRooms := (activeRooms s)(roomId \<mapsto> r')\<rparr>;
                s2 = try_settle roomId r' winnerSocketId reason s1
            in s2\<lparr>activeRooms := (activeRooms s2)(roomId := None)\<rparr>)"

text \<open>\<^verbatim>\<open>timeout_loss\<close>, line 288, reads \<^verbatim>\<open>activeRooms[socket.roomId].p1.id\<close> when the optional
  chain gave \<^verbatim>\<open>undefined\<close>: without a room the handler throws.\<close>

definition timeout_loss_pg :: "socket_id \<Rightarrow> server \<Rightarrow> js_error + server" where
  "timeout_loss_pg sid s =
     (case socket_roomId s sid of
        None \<Rightarrow> Inl TypeError
      | Some roomId \<Rightarrow>
          (case activeRooms s roomId of
             None \<Rightarrow> Inl TypeError
           | Some r \<Rightarrow>
               Inr (handleGameOver_pg roomId
                      (Some (if p_id (p1 r) = sid then p_id (p2 r) else p_id (p1 r)))
                      ''timeout'' s)))"

text \<open>
  The \<^verbatim>\<open>disconnect\<close> handler, lines 293 to 308, in the pieces its \<^verbatim>\<open>await\<close> separates.
  \<^item> \<open>disconnect_find\<close>, lines 294 to 297: the index of the first challenge the socket
    hosts and the challenge at that index, read before the refund is sent.
  \<^item> \<open>disconnect_refund\<close>, lines 298 to 300: the awaited refund, its error dropped.
  \<^item> \<open>disconnect_splice\<close>, lines 301 and 302, after the \<^verbatim>\<open>await\<close>: the array is spliced at
    the index found earlier and the lobby is told.
  \<^item> \<open>disconnect_room\<close>, lines 304 to 307: a room under \<^verbatim>\<open>socket.roomId\<close> that is not yet
    marked is settled for the other slot's socket with reason \<^verbatim>\<open>abandon\<close>; the call of
    \<^verbatim>\<open>handleGameOver\<close> is taken to its end.
  \<open>disconnect_pg\<close> is the handler with no other handler run during its \<^verbatim>\<open>await\<close>.
\<close>

definition disconnect_find :: "socket_id \<Rightarrow> server \<Rightarrow> (nat \<times> challenge) option" where
  "disconnect_find sid s =
     (case findIndex (\<lambda>c. c_hostId c = sid) (openChallenges s) of
        None \<Rightarrow> None
      | Some idx \<Rightarrow> Some (idx, openChallenges s ! idx))"

definition disconnect_refund :: "challenge \<Rightarrow> server \<Rightarrow> server" where
  "disconnect_refund c s =
     execute_or_skip (Credit (balCol (c_mode c)) (c_stake c) (c_userId c)) s"

definition disconnect_splice :: "nat \<Rightarrow> server \<Rightarrow> server" where
  "disconnect_splice idx s =
     (let s1 = s\<lparr>openChallenges := splice1 idx (openChallenges s)\<rparr>
      in emit (Lobby_update (public_challenges (openChallenges s1))) s1)"

definition disconnect_room :: "socket_id \<Rightarrow> server \<Rightarrow> server" where
  "disconnect_room sid s =
     (case socket_roomId s sid of
        None \<Rightarrow> s
      | Some roomId \<Rightarrow>
          (case activeRooms s roomId of
             None \<Rightarrow> s
           | Some r \<Rightarrow>
               if processed r then s
               else
                 let opponentId = (if p_id (p1 r) = sid then p_id (p2 r) else p_id (p1 r))
                 in handleGameOver_pg roomId (Some opponentId) ''abandon'' s))"

definition disconnect_pg :: "socket_id \<Rightarrow> server \<Rightarrow> server" where
  "disconnect_pg sid s =
     (case disconnect_find sid s of
        None \<Rightarrow> disconnect_room sid s
      | Some (idx, c) \<Rightarrow> disconnect_room sid (disconnect_splice idx (disconnect_refund c s)))"

text \<open>
  The \<^verbatim>\<open>disconnect\<close> handler with the events \<open>during\<close> handled while its refund is awaited:
  the index found before the \<^verbatim>\<open>await\<close> is used after it.  When the socket hosts no
  challenge the handler does not await.
\<close>

definition disconnect_around :: "socket_id \<Rightarrow> (server \<Rightarrow> server) \<Rightarrow> server \<Rightarrow> server" where
  "disconnect_around sid during s =
     (case disconnect_find sid s of
        None \<Rightarrow> disconnect_room sid s
      | Some (idx, c) \<Rightarrow>
          disconnect_room sid (disconnect_splice idx (disconnect_refund c (during s))))"

section \<open>The Redis revision's settlement, await by await\<close>

text \<open>
  \<^verbatim>\<open>handleGameOver\<close> of \<^verbatim>\<open>src/unnamed/part_000\<close>, lines 228 to 271, keeps the rooms in the
  Redis hash \<^verbatim>\<open>activeRooms\<close> (here the field \<open>activeRooms\<close>) and awaits every access to it.
  A call in flight is at one of these points:
  \<^item> \<open>At_hGet\<close>: \<^verbatim>\<open>hGet\<close> is sent (line 229).  Resuming reads the hash, returns when the room
    is absent or marked (lines 230 to 233), and otherwise sets \<^verbatim>\<open>processed\<close> on its own
    copy of the room and sends \<^verbatim>\<open>hSet\<close> (lines 235 and 236).
  \<^item> \<open>At_hSet r\<close>: \<^verbatim>\<open>hSet\<close> with the copy \<open>r\<close> is sent.  Resuming stores \<open>r\<close> in the hash.
  \<^item> \<open>At_try r\<close>: the \<^verbatim>\<open>try\<close> block runs with the copy \<open>r\<close> (lines 242 to 267); it is taken
    in one piece, no other call being resumed between its statements.
  \<^item> \<open>At_hDel\<close>: \<^verbatim>\<open>hDel\<close> is sent (line 270).  Resuming deletes the room.
  \<^item> \<open>Returned\<close>.
  Calls are started by socket events and are not awaited by their callers, so the event
  loop may resume any call in flight; \<open>run\<close> resumes them in a given order.
\<close>

datatype stage = At_hGet | At_hSet room | At_try room | At_hDel | Returned

record call =
  call_roomId :: string
  call_winnerSocketId :: "socket_id option"
  call_reason :: string
  call_stage :: stage

definition resume :: "call \<Rightarrow> server \<Rightarrow> call \<times> server" where
  "resume k s =
     (case call_stage k of
        At_hGet \<Rightarrow>
          (case activeRooms s (call_roomId k) of
             None \<Rightarrow> (k\<lparr>call_stage := Returned\<rparr>, s)
           | Some r \<Rightarrow>
               if processed r then (k\<lparr>call_stage := Returned\<rparr>, s)
               else (k\<lparr>call_stage := At_hSet (r\<lparr>processed := True\<rparr>)\<rparr>, s))
      | At_hSet r \<Rightarrow>
          (k\<lparr>call_stage := At_try r\<rparr>,
           s\<lparr>activeRooms := (activeRooms s)(call_roomId k \<mapsto> r)\<rparr>)
      | At_try r \<Rightarrow>
          (k\<lparr>call_stage := At_hDel\<rparr>,
           try_settle (call_roomId k) r (call_winnerSocketId k) (call_reason k) s)
      | At_hDel \<Rightarrow>
          (k\<lparr>call_stage := Returned\<rparr>,
           s\<lparr>activeRooms := (activeRooms s)(call_roomId k := None)\<rparr>)
      | Returned \<Rightarrow> (k, s))"

fun run :: "nat list \<Rightarrow> call list \<times> server \<Rightarrow> call list \<times> server" where
  "run [] (ks, s) = (ks, s)"
| "run (i # order) (ks, s) =
     (if i < length ks
      then (case resume (ks ! i) s of (k', s') \<Rightarrow> run order (ks[i := k'], s'))
      else run order (ks, s))"

definition handleGameOver_call :: "string \<Rightarrow> socket_id option \<Rightarrow> string \<Rightarrow> call" where
  "handleGameOver_call roomId winnerSocketId reason =
     \<lparr>call_roomId = roomId, call_winnerSocketId = winnerSocketId, call_reason = reason,
      call_stage = At_hGet\<rparr>"

section \<open>A sample run\<close>

text \<open>Two registered accounts; account 1 opens a public real-money challenge on socket
  \<open>sockA\<close>, account 2 joins it on socket \<open>sockB\<close>.\<close>

definition initial_server :: server where
  "initial_server =
     \<lparr>openChallenges = [], activeRooms = Map.empty,
      users = [1 \<mapsto> \<lparr>real_balance = 1000, demo_balance = 50000, elo = 1200\<rparr>,
               2 \<mapsto> \<lparr>real_balance = 1000, demo_balance = 50000, elo = 1200\<rparr>],
      admin_wallet = 0, transactions = [], socket_roomId = Map.empty,
      socket_userId = Map.empty, emitted = []\<rparr>"

definition example_lobby :: "int \<Rightarrow> server" where
  "example_lobby stake =
     create_challenge ''sockA''
       \<lparr>cd_userId = 1, cd_username = ''Ali'', cd_stake = stake, cd_mode = ''real'',
        cd_isPrivate = False, cd_elo = 1200\<rparr> 1700000000000 ''K3X9Q'' initial_server"

definition example_match :: "int \<Rightarrow> server" where
  "example_match stake =
     join_challenge ''sockB''
       \<lparr>jd_userId = 2, jd_username = ''Bibi'', jd_roomId = ''pub_1700000000000'', jd_elo = 1200\<rparr>
       (example_lobby stake)"

definition example_room :: "int \<Rightarrow> room" where
  "example_room stake =
     \<lparr>p1 = \<lparr>p_id = ''sockA'', p_userId = 1, p_elo = 1200\<rparr>,
      p2 = \<lparr>p_id = ''sockB'', p_userId = 2, p_elo = 1200\<rparr>,
      r_stake = stake, r_mode = ''real'', processed = False\<rparr>"


text \<open>Account 1 opens a second public challenge on the same socket, half a second after
  the first.\<close>

definition example_two_challenges :: server where
  "example_two_challenges =
     create_challenge ''sockA''
       \<lparr>cd_userId = 1, cd_username = ''Ali'', cd_stake = 200, cd_mode = ''real'',
        cd_isPrivate = False, cd_elo = 1200\<rparr> 1700000000500 ''Q7Z2M'' (example_lobby 100)"

text \<open>Account 2 opens a public challenge on another socket within the millisecond in which
  account 1 opened the first.\<close>

definition example_same_millisecond :: server where
  "example_same_millisecond =
     create_challenge ''sockB''
       \<lparr>cd_userId = 2, cd_username = ''Bibi'', cd_stake = 300, cd_mode = ''real'',
        cd_isPrivate = False, cd_elo = 1200\<rparr> 1700000000000 ''Q7Z2M'' (example_lobby 100)"


text \<open>The same match, made by the handlers with their catch blocks.\<close>

definition match_in_progress :: server where
  "match_in_progress =
     join_challenge_pg ''sockB''
       \<lparr>jd_userId = 2, jd_username = ''Bibi'', jd_roomId = ''pub_1700000000000'', jd_elo = 1200\<rparr>
       (create_challenge_pg ''sockA''
          \<lparr>cd_userId = 1, cd_username = ''Ali'', cd_stake = 100, cd_mode = ''real'',
           cd_isPrivate = False, cd_elo = 1200\<rparr> 1700000000000 ''K3X9Q'' initial_server)"

text \<open>Socket \<open>sockA\<close>, slot \<^verbatim>\<open>p1\<close> of that match, opens a new challenge during the game.\<close>

definition participant_reopens :: server where
  "participant_reopens =
     create_challenge_pg ''sockA''
       \<lparr>cd_userId = 1, cd_username = ''Ali'', cd_stake = 50, cd_mode = ''real'',
        cd_isPrivate = False, cd_elo = 1200\<rparr> 1700000000500 ''Q7Z2M'' match_in_progress"

text \<open>Account 2 opens a public challenge on \<open>sockB\<close>; half a second later account 1 opens
  one on \<open>sockA\<close>.\<close>

definition two_hosts_lobby :: server where
  "two_hosts_lobby =
     create_challenge_pg ''sockA''
       \<lparr>cd_userId = 1, cd_username = ''Ali'', cd_stake = 100, cd_mode = ''real'',
        cd_isPrivate = False, cd_elo = 1200\<rparr> 1700000000500 ''K3X9Q''
       (create_challenge_pg ''sockB''
          \<lparr>cd_userId = 2, cd_username = ''Bibi'', cd_stake = 300, cd_mode = ''real'',
           cd_isPrivate = False, cd_elo = 1200\<rparr> 1700000000000 ''Q7Z2M'' initial_server)"

text \<open>Account 1 opens two public challenges on \<open>sockA\<close>.\<close>

definition one_host_twice :: server where
  "one_host_twice =
     create_challenge_pg ''sockA''
       \<lparr>cd_userId = 1, cd_username = ''Ali'', cd_stake = 200, cd_mode = ''real'',
        cd_isPrivate = False, cd_elo = 1200\<rparr> 1700000000500 ''Q7Z2M''
       (create_challenge_pg ''sockA''
          \<lparr>cd_userId = 1, cd_username = ''Ali'', cd_stake = 100, cd_mode = ''real'',
           cd_isPrivate = False, cd_elo = 1200\<rparr> 1700000000000 ''K3X9Q'' initial_server)"

text \<open>
  Two calls of the Redis revision's \<^verbatim>\<open>handleGameOver\<close> on the room of that match: both
  players report \<^verbatim>\<open>game_over\<close> with \<^verbatim>\<open>winner: "me"\<close>, and line 273 of
  \<^verbatim>\<open>src/unnamed/part_000\<close> starts a call for each event with the sender's socket as winner.
  In \<open>calls_in_turn\<close> the first call returns before the second is resumed; in
  \<open>calls_after_mark\<close> the second call reads the room once the first has stored its mark;
  in \<open>calls_interleaved\<close> the event loop alternates between them, so both \<^verbatim>\<open>hGet\<close>
  replies are read before either \<^verbatim>\<open>hSet\<close> is stored.
\<close>

definition two_calls :: "call list" where
  "two_calls =
     [handleGameOver_call ''pub_1700000000000'' (Some ''sockA'') ''regular'',
      handleGameOver_call ''pub_1700000000000'' (Some ''sockB'') ''regular'']"

definition calls_in_turn :: server where
  "calls_in_turn = snd (run [0, 0, 0, 0, 1, 1, 1, 1] (two_calls, match_in_progress))"

definition calls_after_mark :: server where
  "calls_after_mark = snd (run [0, 0, 1, 1, 0, 0, 1, 1] (two_calls, match_in_progress))"

definition calls_interleaved :: server where
  "calls_interleaved = snd (run [0, 1, 0, 1, 0, 1, 0, 1] (two_calls, match_in_progress))"

section \<open>Basic facts\<close>

lemma platformFee_div: "platformFee totalPot = totalPot div 10"
proof -
  have "real_of_int totalPot * 0.10 = real_of_int totalPot / real_of_int 10"
    by simp
  then show ?thesis
    unfolding platformFee_def Math_floor_def
    by (simp only: floor_divide_of_int_eq)
qed

lemma refund_div: "refund totalPot = (totalPot - totalPot div 10) div 2"
proof -
  have "real_of_int (totalPot - totalPot div 10) / 2
      = real_of_int (totalPot - totalPot div 10) / real_of_int 2"
    by simp
  then show ?thesis
    unfolding refund_def Math_floor_def platformFee_div
    by (simp only: floor_divide_of_int_eq)
qed

lemma updateElo_level: "updateElo a a = \<lparr>newWinnerElo = a + 16, newLoserElo = a - 16\<rparr>"
proof -
  have w: "\<lfloor>real_of_int a + 33 / 2\<rfloor> = a + 16" by linarith
  have l: "\<lfloor>real_of_int a - 31 / 2\<rfloor> = a - 16" by linarith
  show ?thesis
    by (simp add: updateElo_def Math_round_def Let_def w l)
qed

lemma settle_activeRooms [simp]: "activeRooms (settle roomId r w reason s) = activeRooms s"
  by (simp add: settle_def Let_def update_user_def update_users_in_def credit_admin_wallet_def
      insert_transaction_def emit_def)

lemma settle_openChallenges [simp]: "openChallenges (settle roomId r w reason s) = openChallenges s"
  by (simp add: settle_def Let_def update_user_def update_users_in_def credit_admin_wallet_def
      insert_transaction_def emit_def)

lemma settle_ignores_rooms:
  "settle roomId r w reason (s\<lparr>activeRooms := m\<rparr>) = (settle roomId r w reason s)\<lparr>activeRooms := m\<rparr>"
  by (simp add: settle_def Let_def update_user_def update_users_in_def credit_admin_wallet_def
      insert_transaction_def emit_def cong del: if_weak_cong)

lemma settle_ignores_mark:
  "settle roomId (r\<lparr>processed := b\<rparr>) w reason s = settle roomId r w reason s"
  by (simp add: settle_def Let_def)

lemma handleGameOver_open:
  assumes "activeRooms s roomId = Some r" and "\<not> processed r"
  shows "handleGameOver roomId w reason s
       = (settle roomId r w reason s)\<lparr>activeRooms := (activeRooms s)(roomId := None)\<rparr>"
  using assms
  by (simp add: handleGameOver_def Let_def settle_ignores_rooms settle_ignores_mark)

lemma handleGameOver_gone:
  "activeRooms s roomId = None \<Longrightarrow> handleGameOver roomId w reason s = s"
  by (simp add: handleGameOver_def)

lemma handleGameOver_marked:
  "activeRooms s roomId = Some r \<Longrightarrow> processed r \<Longrightarrow> handleGameOver roomId w reason s = s"
  by (simp add: handleGameOver_def)

lemma handleGameOver_removes:
  "activeRooms s roomId = Some r \<Longrightarrow> \<not> processed r \<Longrightarrow>
     activeRooms (handleGameOver roomId w reason s) roomId = None"
  by (simp add: handleGameOver_open)

lemma decimal_example: "decimal 1700000000000 = ''1700000000000''"
  by (simp add: decimal.simps digit_def)

lemmas handler_defs = create_challenge_def join_challenge_def Let_def balCol_def bal_def
  add_bal_def update_user_def emit_def insert_transaction_def new_roomId_def
  public_challenges_def splice1_def

lemma example_lobby_fields:
  assumes "stake \<le> 1000"
  shows "openChallenges (example_lobby stake) =
           [\<lparr>c_roomId = ''pub_1700000000000'', c_hostId = ''sockA'', c_userId = 1,
             c_hostName = ''Ali'', c_stake = stake, c_mode = ''real'', c_isPrivate = False,
             c_elo = 1200\<rparr>]"
    and "activeRooms (example_lobby stake) = Map.empty"
    and "users (example_lobby stake) =
           [1 \<mapsto> \<lparr>real_balance = 1000 - stake, demo_balance = 50000, elo = 1200\<rparr>,
            2 \<mapsto> \<lparr>real_balance = 1000, demo_balance = 50000, elo = 1200\<rparr>]"
    and "socket_roomId (example_lobby stake) = [''sockA'' \<mapsto> ''pub_1700000000000'']"
  using assms
  by (auto simp: example_lobby_def initial_server_def handler_defs decimal_example)

lemma example_match_fields:
  assumes "stake \<le> 1000"
  shows "openChallenges (example_match stake) = []"
    and "activeRooms (example_match stake) = [''pub_1700000000000'' \<mapsto> example_room stake]"
    and "users (example_match stake) =
           [1 \<mapsto> \<lparr>real_balance = 1000 - stake, demo_balance = 50000, elo = 1200\<rparr>,
            2 \<mapsto> \<lparr>real_balance = 1000 - stake, demo_balance = 50000, elo = 1200\<rparr>]"
    and "admin_wallet (example_match stake) = 0"
    and "socket_roomId (example_match stake) =
           [''sockA'' \<mapsto> ''pub_1700000000000'', ''sockB'' \<mapsto> ''pub_1700000000000'']"
  using assms
  by (auto simp: example_match_def example_lobby_def initial_server_def handler_defs
      decimal_example example_room_def)

lemmas settle_defs = settle_def Let_def update_user_def update_users_in_def
  credit_admin_wallet_def insert_transaction_def emit_def balCol_def bal_def add_bal_def


section \<open>Amounts of a decisive settlement\<close>





section \<open>Amounts of a drawn settlement\<close>

text \<open>
  Claim C3, as stated, fails: with stake 5 the pot is 10, the fee is 1 and each player is
  refunded \<open>floor (9 / 2) = 4\<close>, so the refunds and the fee add up to 9.
\<close>

theorem draw_identity_counterexample:
  "emitted (handleGameOver ''pub_1700000000000'' None ''draw'' (example_match 5))
     = emitted (example_match 5) @ [Match_draw ''pub_1700000000000'' 4]
   \<and> refund (5 * 2) = 4 \<and> platformFee (5 * 2) = 1
   \<and> 2 * refund (5 * 2) + platformFee (5 * 2) \<noteq> 5 * 2"
proof -
  have room: "activeRooms (example_match 5) ''pub_1700000000000'' = Some (example_room 5)"
    by (simp add: example_match_fields)
  have op: "\<not> processed (example_room 5)"
    by (simp add: example_room_def)
  show ?thesis
    by (simp add: handleGameOver_open [OF room op] settle_defs example_room_def
        refund_div platformFee_div)
qed


text \<open>
  Claim C3, amended.  When \<^verbatim>\<open>handleGameOver\<close> settles an open room as a draw, each of the
  two accounts is credited \<open>refund = floor ((2 * stake - fee) / 2)\<close> in the room's mode, the
  operator wallet receives \<open>fee = floor (2 * stake * 0.10)\<close> in real mode, and
  \<open>2 * refund + fee\<close> equals \<open>stake * 2\<close> when the fee is even and \<open>stake * 2 - 1\<close> when the
  fee is odd.
\<close>

theorem draw_settlement_amounts:
  assumes "activeRooms s roomId = Some r" and "\<not> processed r"
  shows "emitted (handleGameOver roomId w ''draw'' s)
           = emitted s @ [Match_draw roomId (refund (r_stake r * 2))]
       \<and> users (handleGameOver roomId w ''draw'' s)
           = (\<lambda>uid. if uid = p_userId (p1 r) \<or> uid = p_userId (p2 r)
                then map_option (add_bal (balCol (r_mode r)) (refund (r_stake r * 2))) (users s uid)
                else users s uid)
       \<and> admin_wallet (handleGameOver roomId w ''draw'' s)
           = admin_wallet s + (if r_mode r = ''real'' then platformFee (r_stake r * 2) else 0)
       \<and> refund (r_stake r * 2) = \<lfloor>real_of_int (r_stake r * 2 - platformFee (r_stake r * 2)) / 2\<rfloor>
       \<and> platformFee (r_stake r * 2) = \<lfloor>real_of_int (r_stake r * 2) * 0.10\<rfloor>
       \<and> 2 * refund (r_stake r * 2) + platformFee (r_stake r * 2)
           = r_stake r * 2 - (if even (platformFee (r_stake r * 2)) then 0 else 1)"
proof -
  have parity: "2 * refund (r_stake r * 2) + platformFee (r_stake r * 2)
           = r_stake r * 2 - (if even (platformFee (r_stake r * 2)) then 0 else 1)"
    unfolding refund_div platformFee_div by presburger
  have ledger: "emitted (handleGameOver roomId w ''draw'' s)
           = emitted s @ [Match_draw roomId (refund (r_stake r * 2))]
       \<and> users (handleGameOver roomId w ''draw'' s)
           = (\<lambda>uid. if uid = p_userId (p1 r) \<or> uid = p_userId (p2 r)
                then map_option (add_bal (balCol (r_mode r)) (refund (r_stake r * 2))) (users s uid)
                else users s uid)
       \<and> admin_wallet (handleGameOver roomId w ''draw'' s)
           = admin_wallet s + (if r_mode r = ''real'' then platformFee (r_stake r * 2) else 0)"
    using assms by (simp add: handleGameOver_open settle_def Let_def update_users_in_def
        credit_admin_wallet_def emit_def)
  have forms: "refund (r_stake r * 2) = \<lfloor>real_of_int (r_stake r * 2 - platformFee (r_stake r * 2)) / 2\<rfloor>"
    "platformFee (r_stake r * 2) = \<lfloor>real_of_int (r_stake r * 2) * 0.10\<rfloor>"
    by (simp_all add: refund_def platformFee_def Math_floor_def)
  show ?thesis
    using parity ledger forms by blast
qed


theorem draw_settlement_amounts_witness:
  "activeRooms (example_match 5) ''pub_1700000000000'' = Some (example_room 5)
   \<and> \<not> processed (example_room 5)
   \<and> emitted (handleGameOver ''pub_1700000000000'' None ''draw'' (example_match 5))
       = emitted (example_match 5) @ [Match_draw ''pub_1700000000000'' 4]
   \<and> admin_wallet (handleGameOver ''pub_1700000000000'' None ''draw'' (example_match 5)) = 1
   \<and> 2 * refund (5 * 2) + platformFee (5 * 2) = 5 * 2 - 1"
proof -
  have room: "activeRooms (example_match 5) ''pub_1700000000000'' = Some (example_room 5)"
    by (simp add: example_match_fields)
  have op: "\<not> processed (example_room 5)"
    by (simp add: example_room_def)
  have amounts: "refund 10 = 4" "platformFee 10 = 1"
    by (simp_all add: refund_div platformFee_div)
  show ?thesis
    using draw_settlement_amounts [OF room op, of None] room op
    by (simp add: example_room_def example_match_fields amounts)
qed


section \<open>Rating calculator\<close>

text \<open>
  Claim C6.  \<^verbatim>\<open>updateElo\<close> is the logistic Elo update with \<open>K = 32\<close> as the specification
  words it, \<open>spec_elo\<close>: the winner's new rating is
  \<open>round (winnerRating + 32 * (1 - expected winnerRating loserRating))\<close>, the loser's is
  \<open>round (loserRating + 32 * (0 - expected loserRating winnerRating))\<close>; for 1200 against
  1200 the results are 1216 and 1184.  Floating-point arithmetic is read over the reals;
  every intermediate value of the instance at 1200 is exact in binary floating point.
\<close>

theorem updateElo_is_logistic_elo:
  "(newWinnerElo (updateElo winnerRating loserRating),
    newLoserElo (updateElo winnerRating loserRating)) = spec_elo winnerRating loserRating
   \<and> updateElo 1200 1200 = \<lparr>newWinnerElo = 1216, newLoserElo = 1184\<rparr>
   \<and> spec_elo 1200 1200 = (1216, 1184)"
  by (simp add: updateElo_def spec_elo_def expected_def Math_round_def round_def Let_def)

section \<open>Conceding a game\<close>

text \<open>
  Claim C10 does not hold of the code.  The \<^verbatim>\<open>game_over\<close> handler passes \<^verbatim>\<open>null\<close> as the
  winner's socket whenever the event does not say \<^verbatim>\<open>"me"\<close>, and \<^verbatim>\<open>handleGameOver\<close>
  takes every socket other than \<^verbatim>\<open>p1\<close>'s for \<^verbatim>\<open>p2\<close>.  When the joiner (slot \<^verbatim>\<open>p2\<close>,
  account 2 on \<open>sockB\<close>) concedes with \<^verbatim>\<open>winner: "opponent"\<close>, the joiner is paid and
  gets the winner's rating; the creator (account 1) gets the loser's rating and no money.
\<close>

theorem game_over_opponent_from_p2_pays_sender:
  "emitted (game_over ''sockB'' ''opponent'' (example_match 100))
     = emitted (example_match 100) @ [Match_result ''pub_1700000000000'' 2 180 ''regular'']
   \<and> users (game_over ''sockB'' ''opponent'' (example_match 100)) 2
     = Some \<lparr>real_balance = 1080, demo_balance = 50000, elo = 1216\<rparr>
   \<and> users (game_over ''sockB'' ''opponent'' (example_match 100)) 1
     = Some \<lparr>real_balance = 900, demo_balance = 50000, elo = 1184\<rparr>"
proof -
  have room: "activeRooms (example_match 100) ''pub_1700000000000'' = Some (example_room 100)"
    by (simp add: example_match_fields)
  have op: "\<not> processed (example_room 100)"
    by (simp add: example_room_def)
  have sock: "socket_roomId (example_match 100) ''sockB'' = Some ''pub_1700000000000''"
    by (simp add: example_match_fields)
  show ?thesis
    by (simp add: game_over_def sock handleGameOver_open [OF room op] settle_defs
        example_room_def example_match_fields updateElo_level winnerTake_def platformFee_div)
qed

text \<open>The same concession sent by the creator (slot \<^verbatim>\<open>p1\<close>) pays the joiner, as the
  claim says.\<close>

lemma game_over_opponent_from_p1:
  "emitted (game_over ''sockA'' ''opponent'' (example_match 100))
     = emitted (example_match 100) @ [Match_result ''pub_1700000000000'' 2 180 ''regular'']"
proof -
  have room: "activeRooms (example_match 100) ''pub_1700000000000'' = Some (example_room 100)"
    by (simp add: example_match_fields)
  have op: "\<not> processed (example_room 100)"
    by (simp add: example_room_def)
  have sock: "socket_roomId (example_match 100) ''sockA'' = Some ''pub_1700000000000''"
    by (simp add: example_match_fields)
  show ?thesis
    by (simp add: game_over_def sock handleGameOver_open [OF room op] settle_defs
        example_room_def example_match_fields updateElo_level winnerTake_def platformFee_div)
qed

section \<open>Joining one's own challenge\<close>

text \<open>
  Claim C5.  When the challenge that \<^verbatim>\<open>join_challenge\<close> finds for the requested room was
  created by the joining account, the handler only emits the self-join error
  (\<^verbatim>\<open>Huwezi kucheza dhidi yako!\<close>) to the requester: the challenge stays in the registry, no
  room is created and no balance changes.
\<close>

theorem join_own_challenge_rejected:
  assumes "findIndex (\<lambda>c. c_roomId c = jd_roomId d) (openChallenges s) = Some i"
    and "c_userId (openChallenges s ! i) = jd_userId d"
  shows "join_challenge sid d s = emit (Error_message sid ''Huwezi kucheza dhidi yako!'') s
       \<and> emitted (join_challenge sid d s)
           = emitted s @ [Error_message sid ''Huwezi kucheza dhidi yako!'']
       \<and> openChallenges (join_challenge sid d s) = openChallenges s
       \<and> activeRooms (join_challenge sid d s) = activeRooms s
       \<and> users (join_challenge sid d s) = users s
       \<and> admin_wallet (join_challenge sid d s) = admin_wallet s
       \<and> transactions (join_challenge sid d s) = transactions s"
  using assms by (simp add: join_challenge_def Let_def emit_def)

theorem join_own_challenge_rejected_witness:
  "findIndex (\<lambda>c. c_roomId c = ''pub_1700000000000'') (openChallenges (example_lobby 100)) = Some 0
   \<and> c_userId (openChallenges (example_lobby 100) ! 0) = 1
   \<and> emitted (join_challenge ''sockC''
        \<lparr>jd_userId = 1, jd_username = ''Ali'', jd_roomId = ''pub_1700000000000'', jd_elo = 1200\<rparr>
        (example_lobby 100))
       = emitted (example_lobby 100) @ [Error_message ''sockC'' ''Huwezi kucheza dhidi yako!'']
   \<and> length (openChallenges (join_challenge ''sockC''
        \<lparr>jd_userId = 1, jd_username = ''Ali'', jd_roomId = ''pub_1700000000000'', jd_elo = 1200\<rparr>
        (example_lobby 100))) = 1
   \<and> users (join_challenge ''sockC''
        \<lparr>jd_userId = 1, jd_username = ''Ali'', jd_roomId = ''pub_1700000000000'', jd_elo = 1200\<rparr>
        (example_lobby 100)) 1
       = Some \<lparr>real_balance = 900, demo_balance = 50000, elo = 1200\<rparr>"
proof -
  let ?d = "\<lparr>jd_userId = 1, jd_username = ''Ali'', jd_roomId = ''pub_1700000000000'', jd_elo = 1200\<rparr>"
  have found: "findIndex (\<lambda>c. c_roomId c = jd_roomId ?d) (openChallenges (example_lobby 100)) = Some 0"
    by (simp add: example_lobby_fields)
  have own: "c_userId (openChallenges (example_lobby 100) ! 0) = jd_userId ?d"
    by (simp add: example_lobby_fields)
  show ?thesis
    using join_own_challenge_rejected [OF found own, of "''sockC''"] found own
    by (simp add: example_lobby_fields emit_def)
qed



section \<open>Public room identifiers\<close>

lemma digit_inj: "a < 10 \<Longrightarrow> b < 10 \<Longrightarrow> digit a = digit b \<Longrightarrow> a = b"
proof -
  assume a: "a < 10" and b: "b < 10" and eq: "digit a = digit b"
  have d: "distinct ''0123456789''" by simp
  have "a < length ''0123456789''" "b < length ''0123456789''" using a b by simp_all
  with d eq show "a = b"
    unfolding digit_def by (simp only: nth_eq_iff_index_eq)
qed

lemma decimal_later_example: "decimal 1700000000500 = ''1700000000500''"
  by (simp add: decimal.simps digit_def)

lemma decimal_small: "n < 10 \<Longrightarrow> decimal n = [digit n]"
  by (subst decimal.simps) simp

lemma decimal_large: "\<not> n < 10 \<Longrightarrow> decimal n = decimal (n div 10) @ [digit (n mod 10)]"
  by (subst decimal.simps) simp

lemma decimal_nonempty: "decimal n \<noteq> []"
  by (cases "n < 10") (simp_all add: decimal_small decimal_large)

lemma decimal_inj: "decimal n = decimal m \<Longrightarrow> n = m"
proof (induction n arbitrary: m rule: decimal.induct)
  case (1 n)
  show ?case
  proof (cases "n < 10")
    case True
    have "m < 10"
    proof (rule ccontr)
      assume "\<not> m < 10"
      then have "decimal m = decimal (m div 10) @ [digit (m mod 10)]"
        by (rule decimal_large)
      with "1.prems" True have "decimal (m div 10) = []"
        by (simp add: decimal_small)
      then show False
        by (simp add: decimal_nonempty)
    qed
    with "1.prems" True show ?thesis
      by (simp add: decimal_small digit_inj)
  next
    case False
    have big: "\<not> m < 10"
    proof
      assume "m < 10"
      with "1.prems" False have "decimal (n div 10) = []"
        by (simp add: decimal_small decimal_large)
      then show False
        by (simp add: decimal_nonempty)
    qed
    from "1.prems" False big
    have parts: "decimal (n div 10) = decimal (m div 10)" "digit (n mod 10) = digit (m mod 10)"
      by (simp_all add: decimal_large)
    have "n div 10 = m div 10"
      using "1.IH" [OF False parts(1)] .
    moreover have "n mod 10 = m mod 10"
      using parts(2) by (intro digit_inj) simp_all
    ultimately show ?thesis
      by (metis div_mult_mod_eq)
  qed
qed

lemma create_challenge_accepted:
  assumes "users s (cd_userId d) = Some u" and "\<not> bal (balCol (cd_mode d)) u < cd_stake d"
  shows "openChallenges (create_challenge sid d now token s)
           = openChallenges s @
               [\<lparr>c_roomId = new_roomId (cd_isPrivate d) token now, c_hostId = sid,
                 c_userId = cd_userId d, c_hostName = cd_username d, c_stake = cd_stake d,
                 c_mode = cd_mode d, c_isPrivate = cd_isPrivate d, c_elo = cd_elo d\<rparr>]"
  using assms
  by (simp add: create_challenge_def Let_def update_user_def emit_def insert_transaction_def)

text \<open>
  Claim C9, as stated, fails: the public identifier is \<^verbatim>\<open>'pub_' + Date.now()\<close> and nothing
  else.  Two accounts that open public challenges within the same millisecond get the
  same identifier.
\<close>

theorem public_roomId_same_millisecond_counterexample:
  "map c_roomId (openChallenges example_same_millisecond)
     = [''pub_1700000000000'', ''pub_1700000000000'']
   \<and> map c_hostId (openChallenges example_same_millisecond) = [''sockA'', ''sockB'']
   \<and> \<not> distinct (map c_roomId (openChallenges example_same_millisecond))"
  by (simp add: example_same_millisecond_def example_lobby_def initial_server_def handler_defs
      decimal_example)

text \<open>
  Claim C9, amended.  The identifier of a public challenge is \<^verbatim>\<open>pub_\<close> followed by the
  decimal clock reading in milliseconds at its creation.  Two accepted public
  \<^verbatim>\<open>create_challenge\<close> operations receive distinct identifiers exactly when their clock
  readings differ.
\<close>

theorem public_roomIds_differ_iff_clock_differs:
  assumes "\<not> cd_isPrivate d1" and "\<not> cd_isPrivate d2"
    and "users s (cd_userId d1) = Some u1"
    and "\<not> bal (balCol (cd_mode d1)) u1 < cd_stake d1"
    and "users (create_challenge sid1 d1 now1 token1 s) (cd_userId d2) = Some u2"
    and "\<not> bal (balCol (cd_mode d2)) u2 < cd_stake d2"
  shows "map c_roomId (openChallenges
            (create_challenge sid2 d2 now2 token2 (create_challenge sid1 d1 now1 token1 s)))
           = map c_roomId (openChallenges s) @ [''pub_'' @ decimal now1, ''pub_'' @ decimal now2]
       \<and> ((''pub_'' @ decimal now1 \<noteq> ''pub_'' @ decimal now2) = (now1 \<noteq> now2))"
proof -
  have ids: "map c_roomId (openChallenges
            (create_challenge sid2 d2 now2 token2 (create_challenge sid1 d1 now1 token1 s)))
           = map c_roomId (openChallenges s) @ [''pub_'' @ decimal now1, ''pub_'' @ decimal now2]"
    using assms
    by (simp add: create_challenge_accepted [OF assms(5,6)] create_challenge_accepted [OF assms(3,4)]
        new_roomId_def)
  have "(decimal now1 = decimal now2) = (now1 = now2)"
    using decimal_inj by blast
  with ids show ?thesis by simp
qed

theorem public_roomIds_differ_iff_clock_differs_witness:
  "users initial_server 1 = Some \<lparr>real_balance = 1000, demo_balance = 50000, elo = 1200\<rparr>
   \<and> users (example_lobby 100) 1 = Some \<lparr>real_balance = 900, demo_balance = 50000, elo = 1200\<rparr>
   \<and> map c_roomId (openChallenges example_two_challenges)
       = [''pub_1700000000000'', ''pub_1700000000500'']
   \<and> ''pub_'' @ decimal 1700000000000 \<noteq> ''pub_'' @ decimal 1700000000500"
proof -
  let ?d1 = "\<lparr>cd_userId = 1, cd_username = ''Ali'', cd_stake = 100, cd_mode = ''real'',
        cd_isPrivate = False, cd_elo = 1200\<rparr>"
  let ?d2 = "\<lparr>cd_userId = 1, cd_username = ''Ali'', cd_stake = 200, cd_mode = ''real'',
        cd_isPrivate = False, cd_elo = 1200\<rparr>"
  have p1: "\<not> cd_isPrivate ?d1" and p2: "\<not> cd_isPrivate ?d2"
    by simp_all
  have a1: "users initial_server (cd_userId ?d1)
      = Some \<lparr>real_balance = 1000, demo_balance = 50000, elo = 1200\<rparr>"
    by (simp add: initial_server_def)
  have b1: "\<not> bal (balCol (cd_mode ?d1)) \<lparr>real_balance = 1000, demo_balance = 50000, elo = 1200\<rparr>
      < cd_stake ?d1"
    by (simp add: balCol_def bal_def)
  have a2: "users (create_challenge ''sockA'' ?d1 1700000000000 ''K3X9Q'' initial_server)
      (cd_userId ?d2) = Some \<lparr>real_balance = 900, demo_balance = 50000, elo = 1200\<rparr>"
    using example_lobby_fields(3) [of 100] by (simp add: example_lobby_def)
  have b2: "\<not> bal (balCol (cd_mode ?d2)) \<lparr>real_balance = 900, demo_balance = 50000, elo = 1200\<rparr>
      < cd_stake ?d2"
    by (simp add: balCol_def bal_def)
  note inst = public_roomIds_differ_iff_clock_differs [OF p1 p2 a1 b1 a2 b2,
      of "''sockA''" 1700000000500 "''Q7Z2M''"]
  have none: "openChallenges initial_server = []"
    by (simp add: initial_server_def)
  show ?thesis
    using inst a1 a2
    by (simp add: example_two_challenges_def example_lobby_def decimal_example
        decimal_later_example none)
qed




section \<open>The two layers agree on the sample run\<close>

lemmas pg_defs = select_bal_def int4_def stays_def execute_or_skip_def create_challenge_pg_def
  join_challenge_pg_def cancel_challenge_pg_def

lemmas try_defs = try_settle_def settlement_def match_result_def Let_def balCol_def bal_def
  add_bal_def int4_def stays_def update_user_def update_users_in_def credit_admin_wallet_def
  insert_transaction_def emit_def winnerTake_def platformFee_div refund_div updateElo_level

lemma match_in_progress_eq: "match_in_progress = example_match 100"
  by (simp add: match_in_progress_def example_match_def example_lobby_def initial_server_def
      pg_defs handler_defs decimal_example)

lemma create_challenge_pg_in_range:
  assumes "int4 (cd_userId d)" and "int4 (cd_stake d)"
    and "stays (\<lambda>u. bal (balCol (cd_mode d)) u - cd_stake d) (users s (cd_userId d))"
  shows "create_challenge_pg sid d now token s = create_challenge sid d now token s"
  using assms
  by (auto simp add: create_challenge_pg_def create_challenge_def select_bal_def
      execute_or_skip_def Let_def emit_def split: option.splits)


section \<open>Settlement in the Redis revision\<close>

lemma calls_interleaved_state:
  "calls_interleaved
   = (example_match 100)
     \<lparr>users := [2 \<mapsto> \<lparr>real_balance = 1080, demo_balance = 50000, elo = 1216\<rparr>,
                1 \<mapsto> \<lparr>real_balance = 1080, demo_balance = 50000, elo = 1184\<rparr>],
      admin_wallet := 40,
      transactions := transactions (example_match 100) @
        [\<lparr>tx_user_id = 1, tx_type = ''PRIZE_PAYOUT'', tx_amount = 180, tx_status = ''SUCCESS''\<rparr>,
         \<lparr>tx_user_id = 2, tx_type = ''PRIZE_PAYOUT'', tx_amount = 180, tx_status = ''SUCCESS''\<rparr>],
      emitted := emitted (example_match 100) @
        [Match_result ''pub_1700000000000'' 1 180 ''regular'',
         Match_result ''pub_1700000000000'' 2 180 ''regular''],
      activeRooms := Map.empty\<rparr>"
  apply (simp add: calls_interleaved_def two_calls_def handleGameOver_call_def resume_def
      match_in_progress_eq example_match_fields)
  apply (simp add: try_defs example_room_def example_match_fields)
  done

lemma calls_in_turn_state:
  "calls_in_turn
   = (example_match 100)
     \<lparr>users := [1 \<mapsto> \<lparr>real_balance = 1080, demo_balance = 50000, elo = 1216\<rparr>,
                2 \<mapsto> \<lparr>real_balance = 900, demo_balance = 50000, elo = 1184\<rparr>],
      admin_wallet := 20,
      transactions := transactions (example_match 100) @
        [\<lparr>tx_user_id = 1, tx_type = ''PRIZE_PAYOUT'', tx_amount = 180, tx_status = ''SUCCESS''\<rparr>],
      emitted := emitted (example_match 100) @
        [Match_result ''pub_1700000000000'' 1 180 ''regular''],
      activeRooms := Map.empty\<rparr>"
  apply (simp add: calls_in_turn_def two_calls_def handleGameOver_call_def resume_def
      match_in_progress_eq example_match_fields)
  apply (simp add: try_defs example_room_def example_match_fields)
  done

text \<open>
  Claim C1 does not hold of the Redis revision.  \<^verbatim>\<open>handleGameOver\<close> of
  \<^verbatim>\<open>src/unnamed/part_000\<close> reads the room with an awaited \<^verbatim>\<open>hGet\<close>, tests \<^verbatim>\<open>processed\<close> on
  the copy it read and stores the mark with a second awaited command (line 236, commented
  \<^verbatim>\<open>Mark as processed to prevent double payouts\<close>).  The sample match is open: the room is
  stored with \<^verbatim>\<open>processed: false\<close>, as \<^verbatim>\<open>join_challenge\<close> of that revision stores it
  (lines 188 to 195), and both stakes of 100 have been debited.  Both players report
  \<^verbatim>\<open>game_over\<close> with \<^verbatim>\<open>winner: "me"\<close>; the two calls read the room before either has
  stored its mark, and each runs its payout: both accounts are paid 180 out of a pot of
  200, the operator wallet receives 40, two results are announced, two payout
  transactions are logged and the ratings are written twice.
\<close>

theorem redis_settlement_runs_twice:
  "activeRooms match_in_progress ''pub_1700000000000''
     = Some \<lparr>p1 = \<lparr>p_id = ''sockA'', p_userId = 1, p_elo = 1200\<rparr>,
             p2 = \<lparr>p_id = ''sockB'', p_userId = 2, p_elo = 1200\<rparr>,
             r_stake = 100, r_mode = ''real'', processed = False\<rparr>
   \<and> users match_in_progress 1 = Some \<lparr>real_balance = 900, demo_balance = 50000, elo = 1200\<rparr>
   \<and> users match_in_progress 2 = Some \<lparr>real_balance = 900, demo_balance = 50000, elo = 1200\<rparr>
   \<and> admin_wallet match_in_progress = 0
   \<and> emitted calls_interleaved
     = emitted match_in_progress @
         [Match_result ''pub_1700000000000'' 1 180 ''regular'',
          Match_result ''pub_1700000000000'' 2 180 ''regular'']
   \<and> users calls_interleaved 1 = Some \<lparr>real_balance = 1080, demo_balance = 50000, elo = 1184\<rparr>
   \<and> users calls_interleaved 2 = Some \<lparr>real_balance = 1080, demo_balance = 50000, elo = 1216\<rparr>
   \<and> admin_wallet calls_interleaved = 40
   \<and> transactions calls_interleaved
     = transactions match_in_progress @
         [\<lparr>tx_user_id = 1, tx_type = ''PRIZE_PAYOUT'', tx_amount = 180, tx_status = ''SUCCESS''\<rparr>,
          \<lparr>tx_user_id = 2, tx_type = ''PRIZE_PAYOUT'', tx_amount = 180, tx_status = ''SUCCESS''\<rparr>]
   \<and> activeRooms calls_interleaved ''pub_1700000000000'' = None"
  by (simp add: calls_interleaved_state match_in_progress_eq example_match_fields
      example_room_def)

text \<open>Resumed in turn, the second call finds the room deleted and returns: one payout.\<close>

lemma redis_settlement_in_turn:
  "emitted calls_in_turn
     = emitted match_in_progress @ [Match_result ''pub_1700000000000'' 1 180 ''regular'']
   \<and> users calls_in_turn 1 = Some \<lparr>real_balance = 1080, demo_balance = 50000, elo = 1216\<rparr>
   \<and> users calls_in_turn 2 = Some \<lparr>real_balance = 900, demo_balance = 50000, elo = 1184\<rparr>
   \<and> admin_wallet calls_in_turn = 20
   \<and> activeRooms calls_in_turn ''pub_1700000000000'' = None"
  by (simp add: calls_in_turn_state match_in_progress_eq)

lemma calls_after_mark_state:
  "calls_after_mark
   = (example_match 100)
     \<lparr>users := [1 \<mapsto> \<lparr>real_balance = 1080, demo_balance = 50000, elo = 1216\<rparr>,
                2 \<mapsto> \<lparr>real_balance = 900, demo_balance = 50000, elo = 1184\<rparr>],
      admin_wallet := 20,
      transactions := transactions (example_match 100) @
        [\<lparr>tx_user_id = 1, tx_type = ''PRIZE_PAYOUT'', tx_amount = 180, tx_status = ''SUCCESS''\<rparr>],
      emitted := emitted (example_match 100) @
        [Match_result ''pub_1700000000000'' 1 180 ''regular''],
      activeRooms := Map.empty\<rparr>"
  apply (simp add: calls_after_mark_def two_calls_def handleGameOver_call_def resume_def
      match_in_progress_eq example_match_fields)
  apply (simp add: try_defs example_room_def example_match_fields)
  done

text \<open>Once the first call has stored its mark, the second call reads a marked room and
  returns: one payout.\<close>

lemma redis_settlement_after_mark:
  "emitted calls_after_mark
     = emitted match_in_progress @ [Match_result ''pub_1700000000000'' 1 180 ''regular'']
   \<and> users calls_after_mark 1 = Some \<lparr>real_balance = 1080, demo_balance = 50000, elo = 1216\<rparr>
   \<and> users calls_after_mark 2 = Some \<lparr>real_balance = 900, demo_balance = 50000, elo = 1184\<rparr>
   \<and> admin_wallet calls_after_mark = 20
   \<and> activeRooms calls_after_mark ''pub_1700000000000'' = None"
  by (simp add: calls_after_mark_state match_in_progress_eq)


text \<open>In \<^verbatim>\<open>src/server.js\<close> the test and the mark precede the first \<^verbatim>\<open>await\<close>, and the room
  is deleted at the end: a call on a room that another call has marked, or has already
  deleted, returns at once.\<close>

lemma handleGameOver_pg_marked:
  "activeRooms s roomId = Some r \<Longrightarrow> processed r \<Longrightarrow> handleGameOver_pg roomId w reason s = s"
  by (simp add: handleGameOver_pg_def)

lemma handleGameOver_pg_gone:
  "activeRooms s roomId = None \<Longrightarrow> handleGameOver_pg roomId w reason s = s"
  by (simp add: handleGameOver_pg_def)



section \<open>Creating a challenge\<close>

text \<open>
  Claim C4, as stated, fails: \<^verbatim>\<open>create_challenge\<close> has no test on the sign of the stake.
  Account 1 holds 50000 in demo mode and asks for a stake of \<open>-100\<close>: the only test,
  \<^verbatim>\<open>bal < stake\<close>, passes, the debit stays within the column, the challenge is stored, no
  error is emitted and the balance goes up to 50100.
\<close>

theorem create_challenge_negative_stake_counterexample:
  "openChallenges (create_challenge_pg ''sockA''
       \<lparr>cd_userId = 1, cd_username = ''Ali'', cd_stake = - 100, cd_mode = ''demo'',
        cd_isPrivate = True, cd_elo = 1200\<rparr> 1700000000000 ''K3X9Q'' initial_server)
     = [\<lparr>c_roomId = ''K3X9Q'', c_hostId = ''sockA'', c_userId = 1, c_hostName = ''Ali'',
         c_stake = - 100, c_mode = ''demo'', c_isPrivate = True, c_elo = 1200\<rparr>]
   \<and> users (create_challenge_pg ''sockA''
       \<lparr>cd_userId = 1, cd_username = ''Ali'', cd_stake = - 100, cd_mode = ''demo'',
        cd_isPrivate = True, cd_elo = 1200\<rparr> 1700000000000 ''K3X9Q'' initial_server) 1
     = Some \<lparr>real_balance = 1000, demo_balance = 50100, elo = 1200\<rparr>
   \<and> emitted (create_challenge_pg ''sockA''
       \<lparr>cd_userId = 1, cd_username = ''Ali'', cd_stake = - 100, cd_mode = ''demo'',
        cd_isPrivate = True, cd_elo = 1200\<rparr> 1700000000000 ''K3X9Q'' initial_server)
     = [Game_created ''sockA'' ''K3X9Q'' True]"
  by (simp add: initial_server_def pg_defs handler_defs)

text \<open>
  Claim C4, amended.  A \<^verbatim>\<open>create_challenge\<close> request, whatever the sign of its stake, has
  one of three outcomes.
  \<^item> It is rejected, the error going to the requester and nothing else changing, exactly
    when the account identifier fits an \<^verbatim>\<open>INTEGER\<close> and either no such account exists or
    its balance in the requested mode is below the stake.
  \<^item> It is dropped without an error to the requester and without any change when a
    statement raises: the account identifier does not fit an \<^verbatim>\<open>INTEGER\<close>, or the balance
    test has passed and the stake or the debited balance does not fit one.
  \<^item> Otherwise it is accepted: the challenge is stored with the requested stake and the
    stake is subtracted from the balance.  A request with stake \<open>\<le> 0\<close> from an existing
    account whose balance is not below the stake is accepted or dropped, never rejected.
\<close>

theorem create_challenge_outcomes:
  "(\<not> int4 (cd_userId d)
      \<longrightarrow> create_challenge_pg sid d now token s = s)
   \<and> (int4 (cd_userId d) \<and> users s (cd_userId d) = None
      \<longrightarrow> create_challenge_pg sid d now token s
            = emit (Error_message sid ''Salio Halitoshi!'') s)
   \<and> (\<forall>u. int4 (cd_userId d) \<and> users s (cd_userId d) = Some u
          \<and> bal (balCol (cd_mode d)) u < cd_stake d
      \<longrightarrow> create_challenge_pg sid d now token s
            = emit (Error_message sid ''Salio Halitoshi!'') s)
   \<and> (\<forall>u. int4 (cd_userId d) \<and> users s (cd_userId d) = Some u
          \<and> \<not> bal (balCol (cd_mode d)) u < cd_stake d
          \<and> \<not> (int4 (cd_stake d) \<and> int4 (bal (balCol (cd_mode d)) u - cd_stake d))
      \<longrightarrow> create_challenge_pg sid d now token s = s)
   \<and> (\<forall>u. int4 (cd_userId d) \<and> users s (cd_userId d) = Some u
          \<and> \<not> bal (balCol (cd_mode d)) u < cd_stake d
          \<and> int4 (cd_stake d) \<and> int4 (bal (balCol (cd_mode d)) u - cd_stake d)
      \<longrightarrow> openChallenges (create_challenge_pg sid d now token s)
            = openChallenges s @
                [\<lparr>c_roomId = new_roomId (cd_isPrivate d) token now, c_hostId = sid,
                  c_userId = cd_userId d, c_hostName = cd_username d, c_stake = cd_stake d,
                  c_mode = cd_mode d, c_isPrivate = cd_isPrivate d, c_elo = cd_elo d\<rparr>]
          \<and> users (create_challenge_pg sid d now token s)
            = (users s)(cd_userId d \<mapsto> add_bal (balCol (cd_mode d)) (- cd_stake d) u)
          \<and> emitted (create_challenge_pg sid d now token s)
            = emitted s @ Game_created sid (new_roomId (cd_isPrivate d) token now) (cd_isPrivate d)
                # (if cd_isPrivate d then []
                   else [Lobby_update (public_challenges (openChallenges s @
                [\<lparr>c_roomId = new_roomId (cd_isPrivate d) token now, c_hostId = sid,
                  c_userId = cd_userId d, c_hostName = cd_username d, c_stake = cd_stake d,
                  c_mode = cd_mode d, c_isPrivate = cd_isPrivate d, c_elo = cd_elo d\<rparr>]))])
          \<and> transactions (create_challenge_pg sid d now token s)
            = transactions s @
                (if cd_mode d = ''real''
                 then [\<lparr>tx_user_id = cd_userId d, tx_type = ''ENTRY_FEE'',
                        tx_amount = cd_stake d, tx_status = ''PENDING''\<rparr>]
                 else []))"
  by (auto simp add: create_challenge_pg_def select_bal_def stays_def execute_or_skip_def
      Let_def update_user_def emit_def insert_transaction_def)


theorem create_challenge_outcomes_witness:
  "\<not> int4 4294967297
   \<and> create_challenge_pg ''sockA''
       \<lparr>cd_userId = 4294967297, cd_username = ''Ali'', cd_stake = 100, cd_mode = ''real'',
        cd_isPrivate = True, cd_elo = 1200\<rparr> 1700000000000 ''K3X9Q'' initial_server
     = initial_server
   \<and> int4 7 \<and> users initial_server 7 = None
   \<and> create_challenge_pg ''sockA''
       \<lparr>cd_userId = 7, cd_username = ''Ali'', cd_stake = 100, cd_mode = ''real'',
        cd_isPrivate = True, cd_elo = 1200\<rparr> 1700000000000 ''K3X9Q'' initial_server
     = emit (Error_message ''sockA'' ''Salio Halitoshi!'') initial_server
   \<and> int4 1
   \<and> users initial_server 1 = Some \<lparr>real_balance = 1000, demo_balance = 50000, elo = 1200\<rparr>
   \<and> create_challenge_pg ''sockA''
       \<lparr>cd_userId = 1, cd_username = ''Ali'', cd_stake = 5000, cd_mode = ''real'',
        cd_isPrivate = True, cd_elo = 1200\<rparr> 1700000000000 ''K3X9Q'' initial_server
     = emit (Error_message ''sockA'' ''Salio Halitoshi!'') initial_server
   \<and> int4 (- 2147483648) \<and> \<not> int4 (1000 - (- 2147483648))
   \<and> create_challenge_pg ''sockA''
       \<lparr>cd_userId = 1, cd_username = ''Ali'', cd_stake = - 2147483648, cd_mode = ''real'',
        cd_isPrivate = True, cd_elo = 1200\<rparr> 1700000000000 ''K3X9Q'' initial_server
     = initial_server
   \<and> int4 (- 100) \<and> int4 (50000 - (- 100))
   \<and> length (openChallenges (create_challenge_pg ''sockA''
       \<lparr>cd_userId = 1, cd_username = ''Ali'', cd_stake = - 100, cd_mode = ''demo'',
        cd_isPrivate = True, cd_elo = 1200\<rparr> 1700000000000 ''K3X9Q'' initial_server)) = 1
   \<and> users (create_challenge_pg ''sockA''
       \<lparr>cd_userId = 1, cd_username = ''Ali'', cd_stake = - 100, cd_mode = ''demo'',
        cd_isPrivate = True, cd_elo = 1200\<rparr> 1700000000000 ''K3X9Q'' initial_server) 1
     = Some \<lparr>real_balance = 1000, demo_balance = 50100, elo = 1200\<rparr>"
proof -
  let ?u = "\<lparr>real_balance = 1000, demo_balance = 50000, elo = 1200\<rparr>"
  let ?wide = "\<lparr>cd_userId = 4294967297, cd_username = ''Ali'', cd_stake = 100, cd_mode = ''real'',
        cd_isPrivate = True, cd_elo = 1200\<rparr>"
  let ?nobody = "\<lparr>cd_userId = 7, cd_username = ''Ali'', cd_stake = 100, cd_mode = ''real'',
        cd_isPrivate = True, cd_elo = 1200\<rparr>"
  let ?short = "\<lparr>cd_userId = 1, cd_username = ''Ali'', cd_stake = 5000, cd_mode = ''real'',
        cd_isPrivate = True, cd_elo = 1200\<rparr>"
  let ?over = "\<lparr>cd_userId = 1, cd_username = ''Ali'', cd_stake = - 2147483648, cd_mode = ''real'',
        cd_isPrivate = True, cd_elo = 1200\<rparr>"
  let ?neg = "\<lparr>cd_userId = 1, cd_username = ''Ali'', cd_stake = - 100, cd_mode = ''demo'',
        cd_isPrivate = True, cd_elo = 1200\<rparr>"
  have ranges: "\<not> int4 4294967297" "int4 7" "int4 1" "int4 (- 2147483648)"
    "\<not> int4 (1000 - (- 2147483648))" "int4 (- 100)" "int4 (50000 - (- 100))"
    by (simp_all add: int4_def)
  have accts: "users initial_server 7 = None" "users initial_server 1 = Some ?u"
    by (simp_all add: initial_server_def)
  have cols: "bal (balCol ''real'') ?u = 1000" "bal (balCol ''demo'') ?u = 50000"
    by (simp_all add: balCol_def bal_def)
  have wide: "create_challenge_pg ''sockA'' ?wide 1700000000000 ''K3X9Q'' initial_server
      = initial_server"
    using create_challenge_outcomes [of ?wide "''sockA''" 1700000000000 "''K3X9Q''" initial_server]
      ranges by simp
  have nobody: "create_challenge_pg ''sockA'' ?nobody 1700000000000 ''K3X9Q'' initial_server
      = emit (Error_message ''sockA'' ''Salio Halitoshi!'') initial_server"
    using create_challenge_outcomes [of ?nobody "''sockA''" 1700000000000 "''K3X9Q''" initial_server]
      ranges accts by simp
  have short: "create_challenge_pg ''sockA'' ?short 1700000000000 ''K3X9Q'' initial_server
      = emit (Error_message ''sockA'' ''Salio Halitoshi!'') initial_server"
    using create_challenge_outcomes [of ?short "''sockA''" 1700000000000 "''K3X9Q''" initial_server]
      ranges accts cols by simp
  have over: "create_challenge_pg ''sockA'' ?over 1700000000000 ''K3X9Q'' initial_server
      = initial_server"
    using create_challenge_outcomes [of ?over "''sockA''" 1700000000000 "''K3X9Q''" initial_server]
      ranges accts cols by simp
  have accepted: "length (openChallenges
        (create_challenge_pg ''sockA'' ?neg 1700000000000 ''K3X9Q'' initial_server)) = 1
      \<and> users (create_challenge_pg ''sockA'' ?neg 1700000000000 ''K3X9Q'' initial_server) 1
          = Some \<lparr>real_balance = 1000, demo_balance = 50100, elo = 1200\<rparr>"
    using create_challenge_outcomes [of ?neg "''sockA''" 1700000000000 "''K3X9Q''" initial_server]
      ranges accts cols
    by (simp add: initial_server_def balCol_def add_bal_def)
  show ?thesis
    using ranges accts wide nobody short over accepted by blast
qed



section \<open>Disconnecting with an open challenge\<close>

lemmas disconnect_defs = disconnect_pg_def disconnect_around_def disconnect_find_def
  disconnect_refund_def disconnect_splice_def disconnect_room_def

lemma disconnect_around_idle: "disconnect_around sid (\<lambda>s. s) s = disconnect_pg sid s"
  by (simp add: disconnect_around_def disconnect_pg_def)


text \<open>
  Claim C7 does not hold of \<^verbatim>\<open>src/server.js\<close>.  The \<^verbatim>\<open>disconnect\<close> handler finds the
  index of the socket's challenge, awaits the refund and then splices the array at that
  index (lines 294 to 301), while \<^verbatim>\<open>cancel_challenge\<close> splices before it awaits (line 237)
  and the Redis revision deletes by room identifier.  The registry holds the challenge of
  \<open>sockB\<close> at index 0 and that of \<open>sockA\<close> at index 1.  \<open>sockA\<close> disconnects, and while its
  refund is awaited \<open>sockB\<close> cancels its own challenge: the array shrinks, index 1 is past
  its end and the splice removes nothing.  Account 1 has its stake back, and its
  challenge is still in the registry and in the lobby listing broadcast last.
\<close>

theorem disconnect_splices_stale_index:
  "openChallenges two_hosts_lobby
     = [\<lparr>c_roomId = ''pub_1700000000000'', c_hostId = ''sockB'', c_userId = 2,
         c_hostName = ''Bibi'', c_stake = 300, c_mode = ''real'', c_isPrivate = False,
         c_elo = 1200\<rparr>,
        \<lparr>c_roomId = ''pub_1700000000500'', c_hostId = ''sockA'', c_userId = 1,
         c_hostName = ''Ali'', c_stake = 100, c_mode = ''real'', c_isPrivate = False,
         c_elo = 1200\<rparr>]
   \<and> users two_hosts_lobby 1 = Some \<lparr>real_balance = 900, demo_balance = 50000, elo = 1200\<rparr>
   \<and> disconnect_find ''sockA'' two_hosts_lobby
     = Some (1, \<lparr>c_roomId = ''pub_1700000000500'', c_hostId = ''sockA'', c_userId = 1,
                 c_hostName = ''Ali'', c_stake = 100, c_mode = ''real'', c_isPrivate = False,
                 c_elo = 1200\<rparr>)
   \<and> openChallenges (disconnect_around ''sockA'' (cancel_challenge_pg ''sockB'') two_hosts_lobby)
     = [\<lparr>c_roomId = ''pub_1700000000500'', c_hostId = ''sockA'', c_userId = 1,
         c_hostName = ''Ali'', c_stake = 100, c_mode = ''real'', c_isPrivate = False,
         c_elo = 1200\<rparr>]
   \<and> last (emitted (disconnect_around ''sockA'' (cancel_challenge_pg ''sockB'') two_hosts_lobby))
     = Lobby_update
         [\<lparr>c_roomId = ''pub_1700000000500'', c_hostId = ''sockA'', c_userId = 1,
           c_hostName = ''Ali'', c_stake = 100, c_mode = ''real'', c_isPrivate = False,
           c_elo = 1200\<rparr>]
   \<and> users (disconnect_around ''sockA'' (cancel_challenge_pg ''sockB'') two_hosts_lobby) 1
     = Some \<lparr>real_balance = 1000, demo_balance = 50000, elo = 1200\<rparr>"
  apply (simp add: two_hosts_lobby_def initial_server_def pg_defs handler_defs decimal_example
      decimal_later_example)
  apply (simp add: disconnect_around_def disconnect_find_def)
  apply (simp add: pg_defs handler_defs)
  apply (simp add: disconnect_refund_def pg_defs handler_defs)
  apply (simp add: disconnect_splice_def handler_defs)
  apply (simp add: disconnect_room_def)
  done


text \<open>With no other event during the \<^verbatim>\<open>await\<close>, the same disconnect removes the challenge of
  \<open>sockA\<close> and refunds it.\<close>

lemma disconnect_uninterrupted:
  "openChallenges (disconnect_pg ''sockA'' two_hosts_lobby)
     = [\<lparr>c_roomId = ''pub_1700000000000'', c_hostId = ''sockB'', c_userId = 2,
         c_hostName = ''Bibi'', c_stake = 300, c_mode = ''real'', c_isPrivate = False,
         c_elo = 1200\<rparr>]
   \<and> users (disconnect_pg ''sockA'' two_hosts_lobby) 1
     = Some \<lparr>real_balance = 1000, demo_balance = 50000, elo = 1200\<rparr>"
  apply (simp add: two_hosts_lobby_def initial_server_def pg_defs handler_defs decimal_example
      decimal_later_example)
  apply (simp add: disconnect_pg_def disconnect_find_def)
  apply (simp add: disconnect_refund_def pg_defs handler_defs)
  apply (simp add: disconnect_splice_def handler_defs)
  apply (simp add: disconnect_room_def)
  done

text \<open>
  The handler releases one challenge per disconnect, and \<^verbatim>\<open>create_challenge\<close> does not
  refuse a second challenge from a socket that hosts one.  \<open>sockA\<close> has staked 100 and 200
  in two challenges; after it disconnects, undisturbed, the second challenge is still
  registered and listed and 100 of the 300 staked is back on the account.
\<close>

lemma disconnect_leaves_second_challenge:
  "users initial_server 1 = Some \<lparr>real_balance = 1000, demo_balance = 50000, elo = 1200\<rparr>
   \<and> users one_host_twice 1 = Some \<lparr>real_balance = 700, demo_balance = 50000, elo = 1200\<rparr>
   \<and> openChallenges (disconnect_pg ''sockA'' one_host_twice)
     = [\<lparr>c_roomId = ''pub_1700000000500'', c_hostId = ''sockA'', c_userId = 1,
         c_hostName = ''Ali'', c_stake = 200, c_mode = ''real'', c_isPrivate = False,
         c_elo = 1200\<rparr>]
   \<and> last (emitted (disconnect_pg ''sockA'' one_host_twice))
     = Lobby_update
         [\<lparr>c_roomId = ''pub_1700000000500'', c_hostId = ''sockA'', c_userId = 1,
           c_hostName = ''Ali'', c_stake = 200, c_mode = ''real'', c_isPrivate = False,
           c_elo = 1200\<rparr>]
   \<and> users (disconnect_pg ''sockA'' one_host_twice) 1
     = Some \<lparr>real_balance = 800, demo_balance = 50000, elo = 1200\<rparr>"
  apply (simp add: one_host_twice_def initial_server_def pg_defs handler_defs decimal_example
      decimal_later_example)
  apply (simp add: disconnect_pg_def disconnect_find_def)
  apply (simp add: disconnect_refund_def pg_defs handler_defs)
  apply (simp add: disconnect_splice_def handler_defs)
  apply (simp add: disconnect_room_def)
  done


section \<open>Disconnecting from an open room\<close>

text \<open>
  Claim C8 does not hold of the code.  The \<^verbatim>\<open>disconnect\<close> handler looks for the room
  under \<^verbatim>\<open>socket.roomId\<close> (lines 304 to 307), and \<^verbatim>\<open>create_challenge\<close> and
  \<^verbatim>\<open>join_challenge\<close> overwrite that field (lines 179 and 211) without asking whether the
  socket is in an open room.  \<open>sockA\<close>, slot \<^verbatim>\<open>p1\<close> of the open room of the sample match,
  opens a new challenge with stake 50 and then disconnects: the new challenge is refunded
  and removed, no room is found under the new identifier, \<^verbatim>\<open>handleGameOver\<close> is not
  called, the room stays open and unmarked, no result is announced and the opponent,
  account 2, is not paid.
\<close>

theorem disconnect_after_new_challenge_settles_nothing:
  "activeRooms participant_reopens ''pub_1700000000000''
     = Some \<lparr>p1 = \<lparr>p_id = ''sockA'', p_userId = 1, p_elo = 1200\<rparr>,
             p2 = \<lparr>p_id = ''sockB'', p_userId = 2, p_elo = 1200\<rparr>,
             r_stake = 100, r_mode = ''real'', processed = False\<rparr>
   \<and> socket_roomId participant_reopens ''sockA'' = Some ''pub_1700000000500''
   \<and> users participant_reopens 2 = Some \<lparr>real_balance = 900, demo_balance = 50000, elo = 1200\<rparr>
   \<and> activeRooms (disconnect_pg ''sockA'' participant_reopens) ''pub_1700000000000''
     = Some \<lparr>p1 = \<lparr>p_id = ''sockA'', p_userId = 1, p_elo = 1200\<rparr>,
             p2 = \<lparr>p_id = ''sockB'', p_userId = 2, p_elo = 1200\<rparr>,
             r_stake = 100, r_mode = ''real'', processed = False\<rparr>
   \<and> emitted (disconnect_pg ''sockA'' participant_reopens)
     = emitted participant_reopens @ [Lobby_update []]
   \<and> users (disconnect_pg ''sockA'' participant_reopens) 2
     = Some \<lparr>real_balance = 900, demo_balance = 50000, elo = 1200\<rparr>
   \<and> users (disconnect_pg ''sockA'' participant_reopens) 1
     = Some \<lparr>real_balance = 900, demo_balance = 50000, elo = 1200\<rparr>
   \<and> admin_wallet (disconnect_pg ''sockA'' participant_reopens) = 0"
  apply (simp add: participant_reopens_def match_in_progress_eq)
  apply (simp add: example_match_def example_lobby_def initial_server_def handler_defs
      decimal_example)
  apply (simp add: pg_defs handler_defs decimal_later_example)
  apply (simp add: disconnect_pg_def disconnect_find_def)
  apply (simp add: disconnect_refund_def pg_defs handler_defs)
  apply (simp add: disconnect_splice_def handler_defs)
  apply (simp add: disconnect_room_def)
  done


text \<open>
  When \<^verbatim>\<open>socket.roomId\<close> still names the room, the handler does what the claim says:
  \<open>sockA\<close> disconnects from the sample match, the opponent is paid 180 with reason
  \<^verbatim>\<open>abandon\<close> and the ratings move to 1216 and 1184; \<^verbatim>\<open>timeout_loss\<close> from \<open>sockA\<close> leaves
  the same accounts, wallet and transactions and differs in the reason announced.
\<close>

lemma forfeit_abandon_state:
  "handleGameOver_pg ''pub_1700000000000'' (Some ''sockB'') ''abandon'' (example_match 100)
   = (example_match 100)
     \<lparr>users := [2 \<mapsto> \<lparr>real_balance = 1080, demo_balance = 50000, elo = 1216\<rparr>,
                1 \<mapsto> \<lparr>real_balance = 900, demo_balance = 50000, elo = 1184\<rparr>],
      admin_wallet := 20,
      transactions := transactions (example_match 100) @
        [\<lparr>tx_user_id = 2, tx_type = ''PRIZE_PAYOUT'', tx_amount = 180, tx_status = ''SUCCESS''\<rparr>],
      emitted := emitted (example_match 100) @
        [Match_result ''pub_1700000000000'' 2 180 ''abandon''],
      activeRooms := Map.empty\<rparr>"
  apply (simp add: handleGameOver_pg_def example_match_fields)
  apply (simp add: try_settle_def settlement_def match_result_def example_room_def Let_def)
  apply (simp add: balCol_def updateElo_level winnerTake_def platformFee_div)
  apply (simp add: int4_def stays_def bal_def example_match_fields)
  apply (simp add: update_user_def add_bal_def credit_admin_wallet_def insert_transaction_def
      emit_def example_match_fields)
  done

lemma forfeit_timeout_state:
  "handleGameOver_pg ''pub_1700000000000'' (Some ''sockB'') ''timeout'' (example_match 100)
   = (example_match 100)
     \<lparr>users := [2 \<mapsto> \<lparr>real_balance = 1080, demo_balance = 50000, elo = 1216\<rparr>,
                1 \<mapsto> \<lparr>real_balance = 900, demo_balance = 50000, elo = 1184\<rparr>],
      admin_wallet := 20,
      transactions := transactions (example_match 100) @
        [\<lparr>tx_user_id = 2, tx_type = ''PRIZE_PAYOUT'', tx_amount = 180, tx_status = ''SUCCESS''\<rparr>],
      emitted := emitted (example_match 100) @
        [Match_result ''pub_1700000000000'' 2 180 ''timeout''],
      activeRooms := Map.empty\<rparr>"
  apply (simp add: handleGameOver_pg_def example_match_fields)
  apply (simp add: try_settle_def settlement_def match_result_def example_room_def Let_def)
  apply (simp add: balCol_def updateElo_level winnerTake_def platformFee_div)
  apply (simp add: int4_def stays_def bal_def example_match_fields)
  apply (simp add: update_user_def add_bal_def credit_admin_wallet_def insert_transaction_def
      emit_def example_match_fields)
  done

lemma disconnect_in_room:
  "disconnect_pg ''sockA'' (example_match 100)
   = handleGameOver_pg ''pub_1700000000000'' (Some ''sockB'') ''abandon'' (example_match 100)"
  apply (simp add: disconnect_pg_def disconnect_find_def example_match_fields)
  apply (simp add: disconnect_room_def example_match_fields)
  apply (simp add: example_room_def)
  done

lemma timeout_loss_in_room:
  "timeout_loss_pg ''sockA'' (example_match 100)
   = Inr (handleGameOver_pg ''pub_1700000000000'' (Some ''sockB'') ''timeout'' (example_match 100))"
  apply (simp add: timeout_loss_pg_def example_match_fields)
  apply (simp add: example_room_def)
  done

lemma disconnect_in_room_forfeits:
  "emitted (disconnect_pg ''sockA'' match_in_progress)
     = emitted match_in_progress @ [Match_result ''pub_1700000000000'' 2 180 ''abandon'']
   \<and> users (disconnect_pg ''sockA'' match_in_progress) 1
     = Some \<lparr>real_balance = 900, demo_balance = 50000, elo = 1184\<rparr>
   \<and> users (disconnect_pg ''sockA'' match_in_progress) 2
     = Some \<lparr>real_balance = 1080, demo_balance = 50000, elo = 1216\<rparr>
   \<and> admin_wallet (disconnect_pg ''sockA'' match_in_progress) = 20
   \<and> activeRooms (disconnect_pg ''sockA'' match_in_progress) ''pub_1700000000000'' = None
   \<and> (case timeout_loss_pg ''sockA'' match_in_progress of
         Inl err \<Rightarrow> False
       | Inr t \<Rightarrow>
           emitted t
             = emitted match_in_progress @ [Match_result ''pub_1700000000000'' 2 180 ''timeout'']
           \<and> users t = users (disconnect_pg ''sockA'' match_in_progress)
           \<and> admin_wallet t = admin_wallet (disconnect_pg ''sockA'' match_in_progress)
           \<and> transactions t = transactions (disconnect_pg ''sockA'' match_in_progress))"
  unfolding match_in_progress_eq disconnect_in_room timeout_loss_in_room
    forfeit_abandon_state forfeit_timeout_state
  by simp


end
